theory Spec2Isabelle
  imports Main "HOL-Library.Sublist" "HOL-Library.Multiset"
begin

section \<open>Data model\<close>

text \<open>
  The records of the store, as \<^verbatim>\<open>src/helpers/docker.ts\<close> and
  \<^verbatim>\<open>src/controllers/apps.ts\<close> read them. The Prisma schema is not part of the
  sources, so each record lists the fields the code reads; a record stays extensible
  for the others. Port numbers are integers, every other field the code formats is a
  string, and \<^verbatim>\<open>network.external\<close> is a boolean.
\<close>

record app =
  app_id :: string
  app_name :: string

record build =
  build_id :: string
  build_appId :: string

record portMapping =
  port_external :: int
  port_internal :: int

record bindMount =
  volume_host :: string
  volume_internal :: string

record environmentVariable =
  variable_key :: string
  variable_value :: string

record network =
  network_name :: string
  network_external :: bool

record label =
  label_key :: string
  label_value :: string

text \<open>
  The JavaScript values the generator builds: strings, booleans, arrays and plain
  objects. An object is the list of its own properties in insertion order.
\<close>

datatype jsval =
    JStr string
  | JBool bool
  | JArr "jsval list"
  | JObj "(string \<times> jsval) list"

section \<open>JavaScript primitives used by the code\<close>

text \<open>
  \<^verbatim>\<open>{...acc, [key]: value}\<close> and \<^verbatim>\<open>Object.fromEntries\<close> define one property at a
  time: a key the object already has keeps its place and takes the new value, a new key
  goes last. (JavaScript enumerates integer-like keys first; that reordering is not
  represented, the mapping from keys to values is.)
\<close>

fun set_prop :: "(string \<times> jsval) list \<Rightarrow> string \<Rightarrow> jsval \<Rightarrow> (string \<times> jsval) list" where
  "set_prop [] k v = [(k, v)]"
| "set_prop ((k', v') # ps) k v =
     (if k' = k then (k', v) # ps else (k', v') # set_prop ps k v)"

text \<open>The spread \<^verbatim>\<open>{...obj, ...src}\<close>: every property of \<open>src\<close> is defined on \<open>obj\<close> in turn.\<close>

definition spread :: "(string \<times> jsval) list \<Rightarrow> (string \<times> jsval) list \<Rightarrow> (string \<times> jsval) list" where
  "spread obj src = foldl (\<lambda>acc (k, v). set_prop acc k v) obj src"

definition fromEntries :: "(string \<times> jsval) list \<Rightarrow> (string \<times> jsval) list" where
  "fromEntries entries = foldl (\<lambda>acc (k, v). set_prop acc k v) [] entries"

text \<open>Property lookup \<^verbatim>\<open>obj[key]\<close>; \<open>None\<close> is \<^verbatim>\<open>undefined\<close>.\<close>

fun get_prop :: "jsval \<Rightarrow> string \<Rightarrow> jsval option" where
  "get_prop (JObj ps) k = map_of ps k"
| "get_prop _ k = None"

fun own_keys :: "jsval \<Rightarrow> string set" where
  "own_keys (JObj ps) = fst ` set ps"
| "own_keys _ = {}"

text \<open>
  A number inside a template literal is printed in decimal. \<open>digit_char\<close> is only applied
  to a number below ten.
\<close>

definition digit_char :: "nat \<Rightarrow> char" where
  "digit_char d = ''0123456789'' ! d"

fun show_nat :: "nat \<Rightarrow> string" where
  "show_nat n = (if n < 10 then [digit_char n] else show_nat (n div 10) @ [digit_char (n mod 10)])"

declare show_nat.simps [simp del]

definition show_int :: "int \<Rightarrow> string" where
  "show_int i = (if i < 0 then CHR ''-'' # show_nat (nat (- i)) else show_nat (nat i))"

section \<open>The compose-configuration generator (\<^verbatim>\<open>src/helpers/docker.ts\<close>)\<close>

definition ports_section :: "portMapping list \<Rightarrow> jsval" where
  "ports_section ports =
     JArr (map (\<lambda>port. JStr (show_int (port_external port) @ '':'' @ show_int (port_internal port))) ports)"

definition environment_section :: "environmentVariable list \<Rightarrow> jsval" where
  "environment_section variables =
     JObj (foldl (\<lambda>acc variable. spread acc [(variable_key variable, JStr (variable_value variable))])
            [] variables)"

definition labels_section :: "label list \<Rightarrow> jsval" where
  "labels_section labels =
     JObj (foldl (\<lambda>acc label. spread acc [(label_key label, JStr (label_value label))])
            [] labels)"

definition volumes_section :: "bindMount list \<Rightarrow> jsval" where
  "volumes_section volumes =
     JArr (map (\<lambda>volume. JStr (volume_host volume @ '':'' @ volume_internal volume)) volumes)"

definition service_networks_section :: "network list \<Rightarrow> jsval" where
  "service_networks_section networks = JArr (map (\<lambda>network. JStr (network_name network)) networks)"

definition networks_section :: "network list \<Rightarrow> jsval" where
  "networks_section networks =
     JObj (fromEntries (map (\<lambda>network.
        (network_name network,
         JObj [(''name'', JStr (network_name network)),
               (''external'', JBool (network_external network))])) networks))"

text \<open>
  The object literal \<^verbatim>\<open>compose\<close> of \<^verbatim>\<open>createComposeConfiguration\<close>, property by
  property in source order. \<^verbatim>\<open>xs.length ? {...} : {}\<close> takes the first branch exactly
  when the length is not zero.
\<close>

definition compose_app :: "build \<Rightarrow> portMapping list \<Rightarrow> bindMount list \<Rightarrow>
    environmentVariable list \<Rightarrow> network list \<Rightarrow> label list \<Rightarrow> (string \<times> jsval) list" where
  "compose_app build ports volumes variables networks labels =
     spread (spread (spread (spread (spread
       [(''image'', JStr (''dockerizalo-'' @ build_id build)),
        (''container_name'', JStr (''dockerizalo-'' @ build_appId build)),
        (''restart'', JStr ''unless-stopped'')]
       (if length ports \<noteq> 0 then [(''ports'', ports_section ports)] else []))
       (if length variables \<noteq> 0 then [(''environment'', environment_section variables)] else []))
       (if length labels \<noteq> 0 then [(''labels'', labels_section labels)] else []))
       (if length volumes \<noteq> 0 then [(''volumes'', volumes_section volumes)] else []))
       (if length networks \<noteq> 0 then [(''networks'', service_networks_section networks)] else [])"

definition compose_object :: "build \<Rightarrow> portMapping list \<Rightarrow> bindMount list \<Rightarrow>
    environmentVariable list \<Rightarrow> network list \<Rightarrow> label list \<Rightarrow> jsval" where
  "compose_object build ports volumes variables networks labels =
     JObj (spread
       [(''services'', JObj [(''app'', JObj (compose_app build ports volumes variables networks labels))])]
       (if length networks \<noteq> 0 then [(''networks'', networks_section networks)] else []))"

text \<open>
  \<^verbatim>\<open>dump\<close> is the serialiser of the js-yaml package; it is a parameter of the model.
\<close>

definition createComposeConfiguration :: "(jsval \<Rightarrow> string) \<Rightarrow> build \<Rightarrow> portMapping list \<Rightarrow>
    bindMount list \<Rightarrow> environmentVariable list \<Rightarrow> network list \<Rightarrow> label list \<Rightarrow> string" where
  "createComposeConfiguration dump build ports volumes variables networks labels =
     dump (compose_object build ports volumes variables networks labels)"

text \<open>The service entry of a document: \<^verbatim>\<open>doc.services.app\<close>.\<close>

definition service_of :: "jsval \<Rightarrow> jsval option" where
  "service_of doc = (case get_prop doc ''services'' of None \<Rightarrow> None | Some s \<Rightarrow> get_prop s ''app'')"

section \<open>Collaborators of the controllers (\<^verbatim>\<open>src/controllers/apps.ts\<close>)\<close>

text \<open>
  A value that a collaborator throws, or rejects its promise with. The controllers look at
  it in one place, \<^verbatim>\<open>"err" in e\<close>: for an object the test says whether the object has
  a property \<^verbatim>\<open>err\<close> (the first argument is then the text \<^verbatim>\<open>${e.err}\<close> prints), for a
  value that is not an object the operator \<^verbatim>\<open>in\<close> itself raises a \<^verbatim>\<open>TypeError\<close>. The
  second argument of \<open>Thrown_Object\<close> tells two errors apart.
\<close>

datatype thrown =
    Thrown_Object "string option" string
  | Thrown_Primitive string

type_synonym 'a result = "thrown + 'a"

definition type_error :: thrown where
  "type_error = Thrown_Object None ''TypeError''"

text \<open>\<^verbatim>\<open>"err" in e\<close>.\<close>

definition err_in :: "thrown \<Rightarrow> bool result" where
  "err_in e = (case e of Thrown_Object p _ \<Rightarrow> Inr (p \<noteq> None) | Thrown_Primitive _ \<Rightarrow> Inl type_error)"

text \<open>The request: \<^verbatim>\<open>req.params.appId\<close>; everything else it carries is left open.\<close>

record request =
  req_appId :: string

text \<open>An entry of the map \<^verbatim>\<open>getAllContainersStatus\<close> returns; \<open>None\<close> is a missing status.\<close>

record container =
  container_status :: "string option"

datatype body =
    Message string
  | AppStatuses "(app \<times> string) list"

datatype payload =
    AppSnapshot app string
  | LogProgress string

datatype close_action =
    RemoveAppSubscriber nat app
  | Abort

text \<open>
  Everything a handler does to the outside, in the order it does it: the calls to the
  imported services and the operations on the response \<^verbatim>\<open>res\<close>.
  \<open>Res_status_json s (Message m)\<close> is \<^verbatim>\<open>res.status(s).json({ message: m })\<close>,
  \<open>Res_write p\<close> is \<^verbatim>\<open>res.write(`data: ${JSON.stringify(p)}\n\n`)\<close>,
  \<open>SetTimeout d\<close> is a retry scheduled after \<open>d\<close> milliseconds. The type \<open>'c\<close> is the
  compose configuration as \<^verbatim>\<open>getComposeConfiguration\<close> returns it.
\<close>

datatype 'c call =
    AuthenticateUser request
  | App_findMany
  | App_findUnique string
  | Build_findUnique string
  | Transaction string
  | GetAllContainersStatus
  | GetContainerStatus string
  | GetAppDirectory app
  | GetOrCreateAppDirectory app
  | GetComposeConfiguration string
  | GetComposeImage 'c
  | IsImageAvailable string
  | SaveComposeConfiguration string string
  | StartComposeStack string
  | StopComposeStack string
  | CreateBuild request
  | SendAppEvent string
  | AddAppSubscriber app
  | GetContainerLogs string
  | PromiseRetry string
  | SetTimeout nat
  | Res_status_json nat body
  | Res_setHeader string string
  | Res_flushHeaders
  | Res_on_close close_action
  | Res_write payload

text \<open>
  What the imported services answer. None of them is under \<^verbatim>\<open>src/\<close>, so each is a
  parameter: the value it returns, or the value it throws (\<open>Inl\<close>). A falsy answer of
  \<^verbatim>\<open>getComposeConfiguration\<close> is \<open>None\<close>; \<^verbatim>\<open>getAppDirectory\<close> and
  \<^verbatim>\<open>getComposeImage\<close> answer a string or nothing. \<open>transaction\<close> is the
  \<^verbatim>\<open>prisma.$transaction\<close> of the five \<^verbatim>\<open>findMany\<close> for an app id. The \<open>n\<close>-th call of
  \<^verbatim>\<open>getContainerLogs\<close> (from 0) hands the chunks of its first component to the callback
  and then resolves or rejects; \<open>aborted w n\<close> is \<^verbatim>\<open>abort.signal.aborted\<close> at the moment
  the rejection of that call is handled.
\<close>

record 'c world =
  authenticateUser :: "request \<Rightarrow> unit result"
  app_findMany :: "app list result"
  app_findUnique :: "string \<Rightarrow> app option result"
  build_findUnique :: "string \<Rightarrow> build option result"
  transaction :: "string \<Rightarrow>
    (portMapping list \<times> bindMount list \<times> environmentVariable list \<times> network list \<times> label list) result"
  getAllContainersStatus :: "(string \<Rightarrow> container option) result"
  getContainerStatus :: "string \<Rightarrow> string result"
  getAppDirectory :: "app \<Rightarrow> string option result"
  getOrCreateAppDirectory :: "app \<Rightarrow> string result"
  getComposeConfiguration :: "string \<Rightarrow> 'c option result"
  getComposeImage :: "'c \<Rightarrow> string option result"
  isImageAvailable :: "string \<Rightarrow> bool result"
  saveComposeConfiguration :: "string \<Rightarrow> string \<Rightarrow> unit result"
  startComposeStack :: "string \<Rightarrow> unit result"
  stopComposeStack :: "string \<Rightarrow> unit result"
  createBuild :: "request \<Rightarrow> unit result"
  sendAppEvent :: "string \<Rightarrow> unit result"
  addAppSubscriber :: "app \<Rightarrow> nat result"
  getContainerLogs :: "string \<Rightarrow> nat \<Rightarrow> string list \<times> unit result"
  aborted :: "nat \<Rightarrow> bool"
  dump :: "jsval \<Rightarrow> string"

text \<open>
  A run of a handler: how its promise settles (\<open>Inl e\<close>: rejected with \<open>e\<close>) and what it
  did until then.
\<close>

type_synonym 'c run = "unit result \<times> 'c call list"

definition finished :: "'c run" where
  "finished = (Inr (), [])"

text \<open>
  \<open>await c r k\<close>: the call \<open>c\<close> is made and answers \<open>r\<close>; a thrown value ends the handler,
  a returned one goes to the rest \<open>k\<close> of the handler. A call that is not awaited
  (\<^verbatim>\<open>getComposeImage\<close>, \<^verbatim>\<open>sendAppEvent\<close>, \<^verbatim>\<open>addAppSubscriber\<close>) ends an \<^verbatim>\<open>async\<close>
  handler the same way when it throws.
\<close>

definition await :: "'c call \<Rightarrow> 'a result \<Rightarrow> ('a \<Rightarrow> 'c run) \<Rightarrow> 'c run" where
  "await c r k = (case r of Inl e \<Rightarrow> (Inl e, [c]) | Inr x \<Rightarrow> (fst (k x), c # snd (k x)))"

text \<open>An operation on the response, which returns nothing the handler looks at.\<close>

definition emit :: "'c call \<Rightarrow> 'c run \<Rightarrow> 'c run" where
  "emit c k = (fst k, c # snd k)"

text \<open>\<^verbatim>\<open>try { await c } catch (e) { h }\<close> followed by \<open>k\<close>: only the call is inside the \<^verbatim>\<open>try\<close>.\<close>

definition try_await :: "'c call \<Rightarrow> 'a result \<Rightarrow> (thrown \<Rightarrow> 'c run) \<Rightarrow> ('a \<Rightarrow> 'c run) \<Rightarrow> 'c run" where
  "try_await c r h k =
     (case r of Inl e \<Rightarrow> (fst (h e), c # snd (h e)) | Inr x \<Rightarrow> (fst (k x), c # snd (k x)))"

text \<open>\<^verbatim>\<open>!x\<close> for a string that may be missing: \<^verbatim>\<open>undefined\<close> and \<^verbatim>\<open>""\<close> are falsy.\<close>

definition truthy :: "string option \<Rightarrow> string option" where
  "truthy x = (case x of None \<Rightarrow> None | Some s \<Rightarrow> if s = [] then None else Some s)"

text \<open>
  \<^verbatim>\<open>s.replace(pat, rep)\<close> with a string pattern: the first occurrence of \<open>pat\<close> is
  replaced, the rest of \<open>s\<close> is kept. (The \<^verbatim>\<open>$\<close> patterns of a replacement string are
  not modelled; the controller replaces by the empty string.)
\<close>

fun replace :: "string \<Rightarrow> string \<Rightarrow> string \<Rightarrow> string" where
  "replace pat rep [] = (if pat = [] then rep else [])"
| "replace pat rep (c # cs) =
     (if prefix pat (c # cs) then rep @ drop (length pat) (c # cs) else c # replace pat rep cs)"

section \<open>The controllers\<close>

text \<open>
  The handlers of \<^verbatim>\<open>src/controllers/apps.ts\<close> that list, watch, start and stop an app and
  stream its logs, statement by statement. A handler takes the answers of the services and
  the request and gives its run.
\<close>

definition listApps :: "'c world \<Rightarrow> request \<Rightarrow> 'c run" where
  "listApps w req =
     await (AuthenticateUser req) (authenticateUser w req) (\<lambda>_.
     await App_findMany (app_findMany w) (\<lambda>apps.
     await GetAllContainersStatus (getAllContainersStatus w) (\<lambda>containers.
     emit (Res_status_json 200 (AppStatuses (map (\<lambda>app.
         (app, case containers (''/dockerizalo-'' @ app_id app) of
                 None \<Rightarrow> ''exited''
               | Some c \<Rightarrow> (case container_status c of None \<Rightarrow> ''exited'' | Some s \<Rightarrow> s))) apps)))
       finished)))"

definition listenApp :: "'c world \<Rightarrow> request \<Rightarrow> 'c run" where
  "listenApp w req =
     await (AuthenticateUser req) (authenticateUser w req) (\<lambda>_.
     await (App_findUnique (req_appId req)) (app_findUnique w (req_appId req)) (\<lambda>found.
     case found of
       None \<Rightarrow> emit (Res_status_json 404 (Message ''There is no app with that id'')) finished
     | Some app \<Rightarrow>
         emit (Res_setHeader ''Cache-Control'' ''no-cache'')
        (emit (Res_setHeader ''Content-Type'' ''text/event-stream'')
        (emit (Res_setHeader ''Connection'' ''keep-alive'')
        (emit Res_flushHeaders
        (await (AddAppSubscriber app) (addAppSubscriber w app) (\<lambda>id.
         emit (Res_on_close (RemoveAppSubscriber id app))
        (await (GetContainerStatus (''dockerizalo-'' @ app_id app))
               (getContainerStatus w (''dockerizalo-'' @ app_id app)) (\<lambda>status.
         emit (Res_write (AppSnapshot app status)) finished)))))))))"

text \<open>The six places where \<^verbatim>\<open>startApp\<close> hands the request over: \<^verbatim>\<open>await createBuild(req, res, next); return\<close>.\<close>

definition delegate :: "'c world \<Rightarrow> request \<Rightarrow> 'c run" where
  "delegate w req = await (CreateBuild req) (createBuild w req) (\<lambda>_. finished)"

text \<open>The \<^verbatim>\<open>catch\<close> block of \<^verbatim>\<open>startApp\<close>.\<close>

definition start_failed :: "thrown \<Rightarrow> 'c run" where
  "start_failed e =
     (case err_in e of
        Inl t \<Rightarrow> (Inl t, [])
      | Inr has_err \<Rightarrow>
          if has_err
          then emit (Res_status_json 500 (Message (''Error when running project: '' @
                  (case e of Thrown_Object (Some err) _ \<Rightarrow> err | _ \<Rightarrow> ''undefined'')))) finished
          else (Inl e, []))"

definition startApp :: "'c world \<Rightarrow> request \<Rightarrow> 'c run" where
  "startApp w req =
     await (AuthenticateUser req) (authenticateUser w req) (\<lambda>_.
     await (App_findUnique (req_appId req)) (app_findUnique w (req_appId req)) (\<lambda>found.
     case found of
       None \<Rightarrow> emit (Res_status_json 404 (Message ''An app with that id does not exist'')) finished
     | Some app \<Rightarrow>
     await (GetContainerStatus (''dockerizalo-'' @ req_appId req))
           (getContainerStatus w (''dockerizalo-'' @ req_appId req)) (\<lambda>status.
     if status = ''running''
     then emit (Res_status_json 400 (Message ''The app is already running'')) finished
     else
     await (GetAppDirectory app) (getAppDirectory w app) (\<lambda>maybe_directory.
     case truthy maybe_directory of
       None \<Rightarrow> delegate w req
     | Some directory \<Rightarrow>
     await (GetComposeConfiguration directory) (getComposeConfiguration w directory) (\<lambda>maybe_compose.
     case maybe_compose of
       None \<Rightarrow> delegate w req
     | Some compose \<Rightarrow>
     await (GetComposeImage compose) (getComposeImage w compose) (\<lambda>maybe_image.
     case truthy maybe_image of
       None \<Rightarrow> delegate w req
     | Some image' \<Rightarrow>
     let buildId = replace ''dockerizalo-'' [] image' in
     if buildId = [] then delegate w req
     else
     await (Build_findUnique buildId) (build_findUnique w buildId) (\<lambda>maybe_build.
     case maybe_build of
       None \<Rightarrow> delegate w req
     | Some build \<Rightarrow>
     await (IsImageAvailable image') (isImageAvailable w image') (\<lambda>available.
     if \<not> available then delegate w req
     else
     await (Transaction (app_id app)) (transaction w (app_id app))
       (\<lambda>(ports, volumes, variables, networks, labels).
     await (SaveComposeConfiguration
              (createComposeConfiguration (dump w) build ports volumes variables networks labels)
              directory)
           (saveComposeConfiguration w
              (createComposeConfiguration (dump w) build ports volumes variables networks labels)
              directory) (\<lambda>_.
     try_await (StartComposeStack directory) (startComposeStack w directory) start_failed (\<lambda>_.
     await (SendAppEvent (app_id app)) (sendAppEvent w (app_id app)) (\<lambda>_.
     emit (Res_status_json 200 (Message ''App is now running'')) finished))))))))))))"

definition stopApp :: "'c world \<Rightarrow> request \<Rightarrow> 'c run" where
  "stopApp w req =
     await (AuthenticateUser req) (authenticateUser w req) (\<lambda>_.
     await (App_findUnique (req_appId req)) (app_findUnique w (req_appId req)) (\<lambda>found.
     case found of
       None \<Rightarrow> emit (Res_status_json 404 (Message ''An app with that id does not exist'')) finished
     | Some app \<Rightarrow>
     await (GetContainerStatus (''dockerizalo-'' @ req_appId req))
           (getContainerStatus w (''dockerizalo-'' @ req_appId req)) (\<lambda>status.
     if status \<noteq> ''running'' \<and> status \<noteq> ''restarting''
     then emit (Res_status_json 400 (Message ''The app is not running'')) finished
     else
     await (GetOrCreateAppDirectory app) (getOrCreateAppDirectory w app) (\<lambda>directory.
     await (StopComposeStack directory) (stopComposeStack w directory) (\<lambda>_.
     await (SendAppEvent (app_id app)) (sendAppEvent w (app_id app)) (\<lambda>_.
     emit (Res_status_json 200 (Message ''App has stopped'')) finished))))))"

text \<open>
  \<^verbatim>\<open>listenAppLogs\<close> up to the call of \<^verbatim>\<open>promiseRetry\<close>, which it does not await: the
  handler returns and the retry loop (\<open>logSupervisor\<close> below) goes on by itself.
\<close>

definition listenAppLogs :: "'c world \<Rightarrow> request \<Rightarrow> 'c run" where
  "listenAppLogs w req =
     await (AuthenticateUser req) (authenticateUser w req) (\<lambda>_.
     await (App_findUnique (req_appId req)) (app_findUnique w (req_appId req)) (\<lambda>found.
     case found of
       None \<Rightarrow> emit (Res_status_json 404 (Message ''An app with that id does not exist'')) finished
     | Some app \<Rightarrow>
     await (GetContainerStatus (''dockerizalo-'' @ req_appId req))
           (getContainerStatus w (''dockerizalo-'' @ req_appId req)) (\<lambda>status.
     if status \<noteq> ''running'' \<and> status \<noteq> ''restarting''
     then emit (Res_status_json 400 (Message ''The app is not running'')) finished
     else
         emit (Res_setHeader ''Cache-Control'' ''no-cache'')
        (emit (Res_setHeader ''Content-Type'' ''text/event-stream'')
        (emit (Res_setHeader ''Connection'' ''keep-alive'')
        (emit Res_flushHeaders
        (emit (Res_on_close Abort)
        (emit (PromiseRetry (''dockerizalo-'' @ req_appId req)) finished))))))))"

section \<open>The log-stream supervisor\<close>

text \<open>
  How one call of the function given to \<^verbatim>\<open>promiseRetry\<close> ends: its promise settles, or
  it has called \<^verbatim>\<open>retry(error)\<close>.
\<close>

datatype attempt = Settled "unit result" | Retry thrown

text \<open>
  The function \<^verbatim>\<open>listenAppLogs\<close> gives to \<^verbatim>\<open>promiseRetry\<close>:
  \<^verbatim>\<open>getContainerLogs(name, progress => res.write(...), abort.signal)
     .catch(error => !abort.signal.aborted ? retry(error) : undefined)\<close>.
\<close>

definition logs_attempt :: "'c world \<Rightarrow> string \<Rightarrow> nat \<Rightarrow> 'c call list \<times> attempt" where
  "logs_attempt w name n =
     (case getContainerLogs w name n of (chunks, r) \<Rightarrow>
        (GetContainerLogs name # map (\<lambda>progress. Res_write (LogProgress progress)) chunks,
         case r of
           Inr u \<Rightarrow> Settled (Inr u)
         | Inl error \<Rightarrow> if \<not> aborted w n then Retry error else Settled (Inr ())))"

text \<open>The options \<^verbatim>\<open>listenAppLogs\<close> passes: \<^verbatim>\<open>{ forever: true, maxTimeout: 1000 }\<close>.\<close>

record retry_options =
  forever :: bool
  maxTimeout :: nat

definition log_retry_options :: retry_options where
  "log_retry_options = \<lparr>forever = True, maxTimeout = 1000\<rparr>"

text \<open>
  Modelled from the spec: \<^verbatim>\<open>promiseRetry\<close>, the retry loop of the promise-retry package,
  which is not under \<^verbatim>\<open>src/\<close>. The spec (4.5, 9) describes it as an explicit loop around
  the operation: a requested retry is scheduled after a backoff delay capped by the
  configured maximum, without a bound on the number of attempts when the loop runs
  forever; when the operation settles, the loop ends with its result. The uncapped delay
  before retry \<open>n\<close> (\<open>backoff n\<close>) and the number of retries of a loop that does not run
  forever (\<open>retries\<close>) are the package's defaults and stay parameters. The loop need not
  end, so the result is an option: \<open>None\<close> is a loop that retries for ever.
\<close>

partial_function (option) promiseRetry :: "(nat \<Rightarrow> nat) \<Rightarrow> nat \<Rightarrow> (nat \<Rightarrow> 'c call list \<times> attempt) \<Rightarrow>
    retry_options \<Rightarrow> nat \<Rightarrow> 'c call list \<Rightarrow> 'c run option" where
  "promiseRetry backoff retries fn opts n done_so_far =
     (case fn n of
        (calls, Settled r) \<Rightarrow> Some (r, done_so_far @ calls)
      | (calls, Retry e) \<Rightarrow>
          if forever opts \<or> n < retries
          then promiseRetry backoff retries fn opts (Suc n)
                 (done_so_far @ calls @ [SetTimeout (min (backoff n) (maxTimeout opts))])
          else Some (Inl e, done_so_far @ calls))"

definition logSupervisor :: "(nat \<Rightarrow> nat) \<Rightarrow> nat \<Rightarrow> 'c world \<Rightarrow> string \<Rightarrow> 'c run option" where
  "logSupervisor backoff retries w name =
     promiseRetry backoff retries (logs_attempt w name) log_retry_options 0 []"

section \<open>Reading a run\<close>

text \<open>The arguments of the calls of one kind in a run, in order.\<close>

definition start_calls :: "'c call list \<Rightarrow> string list" where
  "start_calls cs = concat (map (\<lambda>c. case c of StartComposeStack d \<Rightarrow> [d] | _ \<Rightarrow> []) cs)"

definition stop_calls :: "'c call list \<Rightarrow> string list" where
  "stop_calls cs = concat (map (\<lambda>c. case c of StopComposeStack d \<Rightarrow> [d] | _ \<Rightarrow> []) cs)"

definition event_calls :: "'c call list \<Rightarrow> string list" where
  "event_calls cs = concat (map (\<lambda>c. case c of SendAppEvent i \<Rightarrow> [i] | _ \<Rightarrow> []) cs)"

definition status_queries :: "'c call list \<Rightarrow> string list" where
  "status_queries cs = concat (map (\<lambda>c. case c of GetContainerStatus n \<Rightarrow> [n] | _ \<Rightarrow> []) cs)"




text \<open>
  The value a list of key/value records holds for a key, read off the list and not off
  the fold: the value of the last entry with that key.
\<close>

definition last_value :: "string \<Rightarrow> (string \<times> 'v) list \<Rightarrow> 'v option" where
  "last_value k kvs =
     (case filter (\<lambda>p. fst p = k) kvs of [] \<Rightarrow> None | p # ps \<Rightarrow> Some (snd (last (p # ps))))"

definition variable_entries :: "environmentVariable list \<Rightarrow> (string \<times> string) list" where
  "variable_entries variables = map (\<lambda>v. (variable_key v, variable_value v)) variables"

definition label_entries :: "label list \<Rightarrow> (string \<times> string) list" where
  "label_entries labels = map (\<lambda>l. (label_key l, label_value l)) labels"

definition network_entries :: "network list \<Rightarrow> (string \<times> bool) list" where
  "network_entries networks = map (\<lambda>n. (network_name n, network_external n)) networks"

text \<open>
  Reading a decimal numeral back, to say what the printed form of a number is: the value
  of a string of digits, with a sign in front for a negative number.
\<close>

definition digit_value :: "char \<Rightarrow> nat" where
  "digit_value c = of_char c - 48"

definition read_nat :: "string \<Rightarrow> nat" where
  "read_nat s = foldl (\<lambda>acc c. 10 * acc + digit_value c) 0 s"

definition read_int :: "string \<Rightarrow> int" where
  "read_int s = (case s of [] \<Rightarrow> 0 | c # cs \<Rightarrow> if c = CHR ''-'' then - int (read_nat cs) else int (read_nat s))"

section \<open>A deployment to run the controllers on\<close>

text \<open>
  One app \<open>a1\<close> with one build \<open>b1\<close>, a configuration on disk that references the
  image of that build, and collaborators that all answer without an error. The examples
  below change one answer at a time.
\<close>

definition sample_app :: app where
  "sample_app = \<lparr>app_id = ''a1'', app_name = ''web''\<rparr>"

definition sample_build :: build where
  "sample_build = \<lparr>build_id = ''b1'', build_appId = ''a1''\<rparr>"

definition sample_request :: request where
  "sample_request = \<lparr>req_appId = ''a1''\<rparr>"

definition sample_world :: "string world" where
  "sample_world = \<lparr>
     authenticateUser = (\<lambda>_. Inr ()),
     app_findMany = Inr [sample_app],
     app_findUnique = (\<lambda>i. Inr (if i = ''a1'' then Some sample_app else None)),
     build_findUnique = (\<lambda>i. Inr (if i = ''b1'' then Some sample_build else None)),
     transaction = (\<lambda>_. Inr ([\<lparr>port_external = 8080, port_internal = 80\<rparr>], [], [], [], [])),
     getAllContainersStatus =
       Inr (\<lambda>n. if n = ''/dockerizalo-a1'' then Some \<lparr>container_status = Some ''exited''\<rparr> else None),
     getContainerStatus = (\<lambda>_. Inr ''exited''),
     getAppDirectory = (\<lambda>_. Inr (Some ''/apps/a1'')),
     getOrCreateAppDirectory = (\<lambda>_. Inr ''/apps/a1''),
     getComposeConfiguration = (\<lambda>_. Inr (Some ''compose.yml'')),
     getComposeImage = (\<lambda>_. Inr (Some ''dockerizalo-b1'')),
     isImageAvailable = (\<lambda>_. Inr True),
     saveComposeConfiguration = (\<lambda>_ _. Inr ()),
     startComposeStack = (\<lambda>_. Inr ()),
     stopComposeStack = (\<lambda>_. Inr ()),
     createBuild = (\<lambda>_. Inr ()),
     sendAppEvent = (\<lambda>_. Inr ()),
     addAppSubscriber = (\<lambda>_. Inr 0),
     getContainerLogs = (\<lambda>_ _. ([], Inr ())),
     aborted = (\<lambda>_. False),
     dump = (\<lambda>_. ''yaml'')\<rparr>"




text \<open>
  The runtime has the container \<^verbatim>\<open>dockerizalo-a1\<close>, restarting, and lists it in the
  snapshot with the slash in front.
\<close>

definition restarting_runtime :: "string \<Rightarrow> string option" where
  "restarting_runtime name = (if name = ''dockerizalo-a1'' then Some ''restarting'' else None)"

definition restarting_world :: "string world" where
  "restarting_world = sample_world\<lparr>
     getAllContainersStatus :=
       Inr (\<lambda>key. if key = ''/dockerizalo-a1'' then Some \<lparr>container_status = Some ''restarting''\<rparr>
                  else None),
     getContainerStatus := (\<lambda>name. Inr (case restarting_runtime name of None \<Rightarrow> ''exited'' | Some s \<Rightarrow> s))\<rparr>"

text \<open>
  The log stream of \<open>a1\<close> fails twice, each time after one chunk, and then delivers two
  chunks and ends.
\<close>

definition flaky_logs_world :: "string world" where
  "flaky_logs_world = sample_world\<lparr>
     getContainerStatus := (\<lambda>_. Inr ''running''),
     getContainerLogs := (\<lambda>_ n.
        if n = 0 then ([''a''], Inl (Thrown_Object None ''socket''))
        else if n = 1 then ([''b''], Inl (Thrown_Object None ''socket''))
        else ([''c'', ''d''], Inr ()))\<rparr>"

section \<open>Lemmas on the JavaScript primitives\<close>

lemma map_of_set_prop: "map_of (set_prop ps k v) = (map_of ps)(k \<mapsto> v)"
  by (induction ps) (auto simp: fun_eq_iff)

lemma fst_set_prop: "fst ` set (set_prop ps k v) = insert k (fst ` set ps)"
proof (induction ps)
  case Nil
  show ?case by simp
next
  case (Cons p ps)
  obtain k' v' where p: "p = (k', v')" by (cases p)
  show ?case using Cons.IH by (simp add: p insert_commute)
qed

lemma spread_single: "spread obj [(k, v)] = set_prop obj k v"
  by (simp add: spread_def)

lemma map_of_spread_if:
  "map_of (spread obj (if c then [(k, v)] else [])) k' =
     (if c \<and> k' = k then Some v else map_of obj k')"
  by (simp add: spread_def map_of_set_prop)

lemma keys_spread_if:
  "fst ` set (spread obj (if c then [(k, v)] else [])) =
     fst ` set obj \<union> (if c then {k} else {})"
  by (simp add: spread_def fst_set_prop)

lemma last_value_Nil: "last_value k [] = None"
  by (simp add: last_value_def)

lemma last_value_Cons:
  "last_value k (p # ps) =
     (case last_value k ps of None \<Rightarrow> (if fst p = k then Some (snd p) else None) | Some x \<Rightarrow> Some x)"
  by (simp add: last_value_def split: list.splits)

lemma fold_props_lookup:
  "map_of (foldl (\<lambda>acc p. set_prop acc (fst p) (JStr (snd p))) init kvs) k =
     (case last_value k kvs of None \<Rightarrow> map_of init k | Some x \<Rightarrow> Some (JStr x))"
proof (induction kvs arbitrary: init)
  case Nil
  show ?case by (simp add: last_value_Nil)
next
  case (Cons p kvs)
  show ?case
    by (simp add: Cons.IH last_value_Cons map_of_set_prop split: option.splits)
qed

lemma environment_lookup:
  "get_prop (environment_section variables) k =
     map_option JStr (last_value k (variable_entries variables))"
proof -
  have "environment_section variables =
          JObj (foldl (\<lambda>acc p. set_prop acc (fst p) (JStr (snd p))) [] (variable_entries variables))"
    by (simp add: environment_section_def variable_entries_def foldl_map spread_single)
  then show ?thesis
    by (simp add: fold_props_lookup split: option.splits)
qed

lemma labels_lookup:
  "get_prop (labels_section labels) k =
     map_option JStr (last_value k (label_entries labels))"
proof -
  have "labels_section labels =
          JObj (foldl (\<lambda>acc p. set_prop acc (fst p) (JStr (snd p))) [] (label_entries labels))"
    by (simp add: labels_section_def label_entries_def foldl_map spread_single)
  then show ?thesis
    by (simp add: fold_props_lookup split: option.splits)
qed

lemma service_lookup:
  "map_of (compose_app b ports volumes variables networks labels) k =
     (if k = ''networks'' \<and> networks \<noteq> [] then Some (service_networks_section networks)
      else if k = ''volumes'' \<and> volumes \<noteq> [] then Some (volumes_section volumes)
      else if k = ''labels'' \<and> labels \<noteq> [] then Some (labels_section labels)
      else if k = ''environment'' \<and> variables \<noteq> [] then Some (environment_section variables)
      else if k = ''ports'' \<and> ports \<noteq> [] then Some (ports_section ports)
      else map_of [(''image'', JStr (''dockerizalo-'' @ build_id b)),
                   (''container_name'', JStr (''dockerizalo-'' @ build_appId b)),
                   (''restart'', JStr ''unless-stopped'')] k)"
  unfolding compose_app_def by (simp only: map_of_spread_if length_0_conv) simp

lemma service_keys:
  "fst ` set (compose_app b ports volumes variables networks labels) =
     {''image'', ''container_name'', ''restart''}
        \<union> (if ports = [] then {} else {''ports''})
        \<union> (if variables = [] then {} else {''environment''})
        \<union> (if labels = [] then {} else {''labels''})
        \<union> (if volumes = [] then {} else {''volumes''})
        \<union> (if networks = [] then {} else {''networks''})"
  unfolding compose_app_def by (simp only: keys_spread_if) simp

lemma document_service:
  "service_of (compose_object b ports volumes variables networks labels) =
     Some (JObj (compose_app b ports volumes variables networks labels))"
  unfolding compose_object_def service_of_def by (simp add: map_of_spread_if)

lemma document_networks:
  "get_prop (compose_object b ports volumes variables networks labels) ''networks'' =
     (if networks = [] then None else Some (networks_section networks))"
  unfolding compose_object_def by (simp add: map_of_spread_if)

lemma document_keys:
  "own_keys (compose_object b ports volumes variables networks labels) =
     {''services''} \<union> (if networks = [] then {} else {''networks''})"
  unfolding compose_object_def by (simp add: keys_spread_if)

lemma fold_entries_lookup:
  "map_of (foldl (\<lambda>acc (k, v). set_prop acc k v) init es) k =
     (case last_value k es of None \<Rightarrow> map_of init k | Some v \<Rightarrow> Some v)"
proof (induction es arbitrary: init)
  case Nil
  show ?case by (simp add: last_value_Nil)
next
  case (Cons p es)
  obtain k' v' where p: "p = (k', v')" by (cases p)
  show ?case
    by (simp add: p Cons.IH last_value_Cons map_of_set_prop split: option.splits)
qed

lemma last_value_map:
  "last_value k (map (\<lambda>p. (fst p, h (fst p) (snd p))) kvs) = map_option (h k) (last_value k kvs)"
  by (induction kvs) (auto simp: last_value_Nil last_value_Cons split: option.splits)

lemma networks_lookup:
  "get_prop (networks_section networks) n =
     map_option (\<lambda>ext. JObj [(''name'', JStr n), (''external'', JBool ext)])
       (last_value n (network_entries networks))"
proof -
  let ?h = "\<lambda>name ext. JObj [(''name'', JStr name), (''external'', JBool ext)]"
  have eq: "networks_section networks =
      JObj (foldl (\<lambda>acc (k, v). set_prop acc k v) []
        (map (\<lambda>p. (fst p, ?h (fst p) (snd p))) (network_entries networks)))"
    by (simp add: networks_section_def fromEntries_def network_entries_def comp_def)
  show ?thesis
    unfolding eq get_prop.simps fold_entries_lookup last_value_map [of n ?h]
    by (cases "last_value n (network_entries networks)") simp_all
qed

lemma below_ten:
  "d < 10 \<Longrightarrow> d = 0 \<or> d = 1 \<or> d = 2 \<or> d = 3 \<or> d = 4 \<or> d = 5 \<or> d = 6 \<or> d = 7 \<or> d = 8 \<or> d = (9::nat)"
  by arith

lemma digit_value_digit_char: "d < 10 \<Longrightarrow> digit_value (digit_char d) = d"
  by (drule below_ten) (auto simp: digit_value_def digit_char_def)

lemma digit_char_digit: "d < 10 \<Longrightarrow> digit_char d \<in> set ''0123456789''"
  by (drule below_ten) (auto simp: digit_char_def)

lemma read_nat_snoc: "read_nat (s @ [c]) = 10 * read_nat s + digit_value c"
  by (simp add: read_nat_def)

lemma read_show_nat: "read_nat (show_nat n) = n"
proof (induction n rule: show_nat.induct)
  case (1 n)
  show ?case
  proof (cases "n < 10")
    case True
    then have "show_nat n = [digit_char n]"
      by (subst show_nat.simps) simp
    with True show ?thesis
      by (simp add: read_nat_def digit_value_digit_char)
  next
    case False
    then have "show_nat n = show_nat (n div 10) @ [digit_char (n mod 10)]"
      by (subst show_nat.simps) simp
    moreover have "read_nat (show_nat (n div 10)) = n div 10"
      using False by (rule "1.IH")
    ultimately show ?thesis
      by (simp add: read_nat_snoc digit_value_digit_char)
  qed
qed

lemma show_nat_digits: "show_nat n \<noteq> [] \<and> set (show_nat n) \<subseteq> set ''0123456789''"
proof (induction n rule: show_nat.induct)
  case (1 n)
  show ?case
  proof (cases "n < 10")
    case True
    then have "show_nat n = [digit_char n]"
      by (subst show_nat.simps) simp
    with True digit_char_digit [of n] show ?thesis
      by (simp)
  next
    case False
    then have "show_nat n = show_nat (n div 10) @ [digit_char (n mod 10)]"
      by (subst show_nat.simps) simp
    moreover have "show_nat (n div 10) \<noteq> [] \<and> set (show_nat (n div 10)) \<subseteq> set ''0123456789''"
      using False by (rule "1.IH")
    moreover have "digit_char (n mod 10) \<in> set ''0123456789''"
      by (rule digit_char_digit) simp
    ultimately show ?thesis
      by (simp)
  qed
qed

lemma read_show_int: "read_int (show_int i) = i"
proof (cases "i < 0")
  case True
  then show ?thesis
    by (simp add: show_int_def read_int_def read_show_nat)
next
  case False
  obtain c cs where cs: "show_nat (nat i) = c # cs"
    using show_nat_digits [of "nat i"] by (cases "show_nat (nat i)") auto
  have "c \<in> set ''0123456789''"
    using show_nat_digits [of "nat i"] cs by auto
  then have "c \<noteq> CHR ''-''"
    by auto
  with False cs read_show_nat [of "nat i"] show ?thesis
    by (simp add: show_int_def read_int_def)
qed

lemma show_int_chars: "set (show_int i) \<subseteq> set ''-0123456789''"
proof -
  have sign: "set ''-0123456789'' = insert CHR ''-'' (set ''0123456789'')"
    by (rule list.set(2))
  show ?thesis
  proof (cases "i < 0")
    case True
    then have "set (show_int i) = insert CHR ''-'' (set (show_nat (nat (- i))))"
      by (simp only: show_int_def if_True list.set(2))
    also have "\<dots> \<subseteq> insert CHR ''-'' (set ''0123456789'')"
      using show_nat_digits [of "nat (- i)"] by (intro insert_mono) (rule conjunct2)
    finally show ?thesis
      by (simp only: sign)
  next
    case False
    then have "set (show_int i) = set (show_nat (nat i))"
      by (simp only: show_int_def if_False)
    also have "\<dots> \<subseteq> set ''0123456789''"
      using show_nat_digits [of "nat i"] by (rule conjunct2)
    also have "\<dots> \<subseteq> insert CHR ''-'' (set ''0123456789'')"
      by (rule subset_insertI)
    finally show ?thesis
      by (simp only: sign)
  qed
qed

section \<open>The compose-configuration generator\<close>

text \<open>
  C2. Whatever the build and the five lists are, \<^verbatim>\<open>createComposeConfiguration\<close> serialises
  one document, the same for every serialiser, with the service \<^verbatim>\<open>services.app\<close>. The
  service has \<^verbatim>\<open>image\<close>, \<^verbatim>\<open>container_name\<close> and \<^verbatim>\<open>restart\<close>, and a section is there
  exactly when its list is not empty: \<^verbatim>\<open>ports\<close>, the list of the entries
  \<^verbatim>\<open>external:internal\<close> in decimal; \<^verbatim>\<open>environment\<close> and \<^verbatim>\<open>labels\<close>, mappings from each key
  to the value of its last entry; \<^verbatim>\<open>volumes\<close>, the list of the entries \<^verbatim>\<open>host:internal\<close>;
  \<^verbatim>\<open>networks\<close> on the service, the list of the names; and \<^verbatim>\<open>networks\<close> at the top level,
  a mapping from each name to its name and the external flag of its last entry. Neither
  the service nor the document has another key. The decimal form of a number reads back
  as that number and has no character but digits and the sign.
\<close>

theorem generate_section_iff_nonempty:
  "\<exists>doc svc.
     (\<forall>dump. createComposeConfiguration dump b ports volumes variables networks labels = dump doc) \<and>
     get_prop doc ''services'' = Some (JObj [(''app'', svc)]) \<and>
     service_of doc = Some svc \<and>
     get_prop svc ''image'' = Some (JStr (''dockerizalo-'' @ build_id b)) \<and>
     get_prop svc ''container_name'' = Some (JStr (''dockerizalo-'' @ build_appId b)) \<and>
     get_prop svc ''restart'' = Some (JStr ''unless-stopped'') \<and>
     get_prop svc ''ports'' =
       (if ports = [] then None
        else Some (JArr (map (\<lambda>port.
               JStr (show_int (port_external port) @ '':'' @ show_int (port_internal port))) ports))) \<and>
     (\<exists>env. get_prop svc ''environment'' = (if variables = [] then None else Some (JObj env)) \<and>
        (\<forall>k. map_of env k = map_option JStr (last_value k (variable_entries variables)))) \<and>
     (\<exists>lbls. get_prop svc ''labels'' = (if labels = [] then None else Some (JObj lbls)) \<and>
        (\<forall>k. map_of lbls k = map_option JStr (last_value k (label_entries labels)))) \<and>
     get_prop svc ''volumes'' =
       (if volumes = [] then None
        else Some (JArr (map (\<lambda>volume.
               JStr (volume_host volume @ '':'' @ volume_internal volume)) volumes))) \<and>
     get_prop svc ''networks'' =
       (if networks = [] then None
        else Some (JArr (map (\<lambda>network. JStr (network_name network)) networks))) \<and>
     (\<exists>nets. get_prop doc ''networks'' = (if networks = [] then None else Some (JObj nets)) \<and>
        (\<forall>name. map_of nets name =
           map_option (\<lambda>ext. JObj [(''name'', JStr name), (''external'', JBool ext)])
             (last_value name (network_entries networks)))) \<and>
     own_keys svc = {''image'', ''container_name'', ''restart''}
        \<union> (if ports = [] then {} else {''ports''})
        \<union> (if variables = [] then {} else {''environment''})
        \<union> (if labels = [] then {} else {''labels''})
        \<union> (if volumes = [] then {} else {''volumes''})
        \<union> (if networks = [] then {} else {''networks''}) \<and>
     own_keys doc = {''services''} \<union> (if networks = [] then {} else {''networks''}) \<and>
     (\<forall>i. read_int (show_int i) = i \<and> set (show_int i) \<subseteq> set ''-0123456789'')"
proof -
  let ?doc = "compose_object b ports volumes variables networks labels"
  let ?svc = "JObj (compose_app b ports volumes variables networks labels)"
  have dumped: "\<forall>dump. createComposeConfiguration dump b ports volumes variables networks labels =
      dump ?doc"
    by (simp add: createComposeConfiguration_def)
  have services: "get_prop ?doc ''services'' = Some (JObj [(''app'', ?svc)])"
    unfolding compose_object_def by (simp add: map_of_spread_if)
  have service: "service_of ?doc = Some ?svc"
    by (rule document_service)
  have image: "get_prop ?svc ''image'' = Some (JStr (''dockerizalo-'' @ build_id b))"
    by (simp add: service_lookup)
  have name: "get_prop ?svc ''container_name'' = Some (JStr (''dockerizalo-'' @ build_appId b))"
    by (simp add: service_lookup)
  have restart: "get_prop ?svc ''restart'' = Some (JStr ''unless-stopped'')"
    by (simp add: service_lookup)
  have ports: "get_prop ?svc ''ports'' =
       (if ports = [] then None
        else Some (JArr (map (\<lambda>port.
               JStr (show_int (port_external port) @ '':'' @ show_int (port_internal port))) ports)))"
    by (simp add: service_lookup ports_section_def)
  obtain env where env: "environment_section variables = JObj env"
    by (simp add: environment_section_def)
  have env_lookup: "\<forall>k. map_of env k = map_option JStr (last_value k (variable_entries variables))"
    using environment_lookup [of variables] by (simp add: env)
  have environment: "get_prop ?svc ''environment'' = (if variables = [] then None else Some (JObj env))"
    by (simp add: service_lookup env)
  obtain lbls where lbls: "labels_section labels = JObj lbls"
    by (simp add: labels_section_def)
  have lbls_lookup: "\<forall>k. map_of lbls k = map_option JStr (last_value k (label_entries labels))"
    using labels_lookup [of labels] by (simp add: lbls)
  have labels: "get_prop ?svc ''labels'' = (if labels = [] then None else Some (JObj lbls))"
    by (simp add: service_lookup lbls)
  have volumes: "get_prop ?svc ''volumes'' =
       (if volumes = [] then None
        else Some (JArr (map (\<lambda>volume.
               JStr (volume_host volume @ '':'' @ volume_internal volume)) volumes)))"
    by (simp add: service_lookup volumes_section_def)
  have service_networks: "get_prop ?svc ''networks'' =
       (if networks = [] then None
        else Some (JArr (map (\<lambda>network. JStr (network_name network)) networks)))"
    by (simp add: service_lookup service_networks_section_def)
  obtain nets where nets: "networks_section networks = JObj nets"
    by (simp add: networks_section_def)
  have nets_lookup: "\<forall>name. map_of nets name =
           map_option (\<lambda>ext. JObj [(''name'', JStr name), (''external'', JBool ext)])
             (last_value name (network_entries networks))"
    using networks_lookup [of networks] by (simp add: nets)
  have networks: "get_prop ?doc ''networks'' = (if networks = [] then None else Some (JObj nets))"
    by (simp add: document_networks nets)
  have service_keys': "own_keys ?svc = {''image'', ''container_name'', ''restart''}
        \<union> (if ports = [] then {} else {''ports''})
        \<union> (if variables = [] then {} else {''environment''})
        \<union> (if labels = [] then {} else {''labels''})
        \<union> (if volumes = [] then {} else {''volumes''})
        \<union> (if networks = [] then {} else {''networks''})"
    unfolding own_keys.simps by (rule service_keys)
  have document_keys': "own_keys ?doc = {''services''} \<union> (if networks = [] then {} else {''networks''})"
    by (rule document_keys)
  have decimal: "\<forall>i. read_int (show_int i) = i \<and> set (show_int i) \<subseteq> set ''-0123456789''"
    by (intro allI conjI read_show_int show_int_chars)
  have e: "\<exists>env.
      get_prop ?svc ''environment'' = (if variables = [] then None else Some (JObj env)) \<and>
      (\<forall>k. map_of env k = map_option JStr (last_value k (variable_entries variables)))"
    by (intro exI [of _ env] conjI environment env_lookup)
  have l: "\<exists>lbls.
      get_prop ?svc ''labels'' = (if labels = [] then None else Some (JObj lbls)) \<and>
      (\<forall>k. map_of lbls k = map_option JStr (last_value k (label_entries labels)))"
    by (intro exI [of _ lbls] conjI labels lbls_lookup)
  have n: "\<exists>nets.
      get_prop ?doc ''networks'' = (if networks = [] then None else Some (JObj nets)) \<and>
      (\<forall>name. map_of nets name =
           map_option (\<lambda>ext. JObj [(''name'', JStr name), (''external'', JBool ext)])
             (last_value name (network_entries networks)))"
    by (intro exI [of _ nets] conjI networks nets_lookup)
  show ?thesis
    by (intro exI [of _ ?doc] exI [of _ ?svc] conjI dumped services service image name restart
          ports e l volumes service_networks n service_keys' document_keys' decimal)
qed

text \<open>
  One port mapping 8080 to 80, one bind mount and one external network: the service has
  the \<^verbatim>\<open>ports\<close> entry \<^verbatim>\<open>8080:80\<close>, the \<^verbatim>\<open>volumes\<close> entry \<^verbatim>\<open>/srv/data:/data\<close> and the
  network \<^verbatim>\<open>web\<close>, and neither \<^verbatim>\<open>environment\<close> nor \<^verbatim>\<open>labels\<close>; the document maps
  \<^verbatim>\<open>web\<close> to its name and flag.
\<close>

theorem generate_section_iff_nonempty_example:
  "\<exists>doc svc nets.
     (\<forall>dump. createComposeConfiguration dump sample_build
        [\<lparr>port_external = 8080, port_internal = 80\<rparr>]
        [\<lparr>volume_host = ''/srv/data'', volume_internal = ''/data''\<rparr>] []
        [\<lparr>network_name = ''web'', network_external = True\<rparr>] [] = dump doc) \<and>
     service_of doc = Some svc \<and>
     get_prop svc ''ports'' = Some (JArr [JStr ''8080:80'']) \<and>
     get_prop svc ''volumes'' = Some (JArr [JStr ''/srv/data:/data'']) \<and>
     get_prop svc ''networks'' = Some (JArr [JStr ''web'']) \<and>
     get_prop svc ''environment'' = None \<and>
     get_prop svc ''labels'' = None \<and>
     get_prop doc ''networks'' = Some (JObj nets) \<and>
     map_of nets ''web'' = Some (JObj [(''name'', JStr ''web''), (''external'', JBool True)]) \<and>
     own_keys svc = {''image'', ''container_name'', ''restart'', ''ports'', ''volumes'', ''networks''} \<and>
     own_keys doc = {''services'', ''networks''}"
proof -
  let ?ports = "[\<lparr>port_external = 8080, port_internal = 80\<rparr>]"
  let ?volumes = "[\<lparr>volume_host = ''/srv/data'', volume_internal = ''/data''\<rparr>]"
  let ?networks = "[\<lparr>network_name = ''web'', network_external = True\<rparr>]"
  from generate_section_iff_nonempty [of sample_build ?ports ?volumes "[]" ?networks "[]"]
  obtain doc svc env lbls nets where
    dumped: "\<forall>dump. createComposeConfiguration dump sample_build ?ports ?volumes [] ?networks [] =
       dump doc"
    and service: "service_of doc = Some svc"
    and ports: "get_prop svc ''ports'' =
       (if ?ports = [] then None
        else Some (JArr (map (\<lambda>port.
               JStr (show_int (port_external port) @ '':'' @ show_int (port_internal port))) ?ports)))"
    and environment: "get_prop svc ''environment'' =
       (if ([] :: environmentVariable list) = [] then None else Some (JObj env))"
    and labels: "get_prop svc ''labels'' = (if ([] :: label list) = [] then None else Some (JObj lbls))"
    and volumes: "get_prop svc ''volumes'' =
       (if ?volumes = [] then None
        else Some (JArr (map (\<lambda>volume.
               JStr (volume_host volume @ '':'' @ volume_internal volume)) ?volumes)))"
    and service_networks: "get_prop svc ''networks'' =
       (if ?networks = [] then None
        else Some (JArr (map (\<lambda>network. JStr (network_name network)) ?networks)))"
    and networks: "get_prop doc ''networks'' = (if ?networks = [] then None else Some (JObj nets))"
    and nets: "\<forall>name. map_of nets name =
           map_option (\<lambda>ext. JObj [(''name'', JStr name), (''external'', JBool ext)])
             (last_value name (network_entries ?networks))"
    and service_keys: "own_keys svc = {''image'', ''container_name'', ''restart''}
        \<union> (if ?ports = [] then {} else {''ports''})
        \<union> (if ([] :: environmentVariable list) = [] then {} else {''environment''})
        \<union> (if ([] :: label list) = [] then {} else {''labels''})
        \<union> (if ?volumes = [] then {} else {''volumes''})
        \<union> (if ?networks = [] then {} else {''networks''})"
    and document_keys: "own_keys doc = {''services''} \<union> (if ?networks = [] then {} else {''networks''})"
    by (elim exE conjE) (rule that; assumption)
  have 1: "get_prop svc ''ports'' = Some (JArr [JStr ''8080:80''])"
    using ports by (simp add: show_int_def show_nat.simps digit_char_def)
  have 2: "get_prop svc ''volumes'' = Some (JArr [JStr ''/srv/data:/data''])"
    using volumes by simp
  have 3: "get_prop svc ''networks'' = Some (JArr [JStr ''web''])"
    using service_networks by simp
  have 4: "get_prop svc ''environment'' = None" "get_prop svc ''labels'' = None"
    using environment labels by simp_all
  have 5: "get_prop doc ''networks'' = Some (JObj nets)"
    using networks by simp
  have 6: "map_of nets ''web'' = Some (JObj [(''name'', JStr ''web''), (''external'', JBool True)])"
    using nets by (simp add: last_value_def network_entries_def)
  have 7: "own_keys svc = {''image'', ''container_name'', ''restart'', ''ports'', ''volumes'', ''networks''}"
    using service_keys by (simp add: insert_commute)
  have 8: "own_keys doc = {''services'', ''networks''}"
    using document_keys by (simp add: insert_commute)
  show ?thesis
    by (intro exI [of _ doc] exI [of _ svc] exI [of _ nets] conjI dumped service 1 2 3 4 5 6 7 8)
qed



section \<open>Lemmas on runs\<close>

lemma await_Inr: "await c (Inr x) k = (fst (k x), c # snd (k x))"
  by (simp add: await_def)

lemma snd_await: "snd (await c r k) = c # (case r of Inl e \<Rightarrow> [] | Inr x \<Rightarrow> snd (k x))"
  by (simp add: await_def split: sum.splits)

lemma snd_try_await:
  "snd (try_await c r h k) = c # (case r of Inl e \<Rightarrow> snd (h e) | Inr x \<Rightarrow> snd (k x))"
  by (simp add: try_await_def split: sum.splits)

lemma snd_emit: "snd (emit c k) = c # snd k"
  by (simp add: emit_def)

lemma snd_finished: "snd finished = []"
  by (simp add: finished_def)

lemma delegate_eq: "delegate w req = (createBuild w req, [CreateBuild req])"
  by (cases "createBuild w req") (simp_all add: delegate_def await_def finished_def)

lemma case_truthy:
  "(case truthy x of None \<Rightarrow> a | Some s \<Rightarrow> b s) =
     (case x of None \<Rightarrow> a | Some s \<Rightarrow> if s = [] then a else b s)"
  by (simp add: truthy_def split: option.splits)


lemma start_failed_no_status: "GetContainerStatus n \<notin> set (snd (start_failed e))"
  by (simp add: start_failed_def err_in_def emit_def finished_def
      split: thrown.splits option.splits)

lemma status_queries_Cons:
  "status_queries (c # cs) = (case c of GetContainerStatus n \<Rightarrow> [n] | _ \<Rightarrow> []) @ status_queries cs"
  by (simp add: status_queries_def)

lemma status_queries_none:
  "(\<And>n. GetContainerStatus n \<notin> set cs) \<Longrightarrow> status_queries cs = []"
  by (induction cs) (auto simp: status_queries_def split: call.splits)





lemma replace_absent:
  "pat \<noteq> [] \<Longrightarrow> \<not> sublist pat s \<Longrightarrow> replace pat rep s = s"
proof (induction s)
  case Nil
  then show ?case by simp
next
  case (Cons c cs)
  from Cons.prems have "\<not> prefix pat (c # cs)"
    using prefix_imp_sublist by blast
  moreover from Cons.prems have "\<not> sublist pat cs"
    by (simp add: sublist_Cons_right)
  ultimately show ?case using Cons by simp
qed

lemma replace_prefix: "prefix pat s \<Longrightarrow> replace pat rep s = rep @ drop (length pat) s"
  by (cases s) auto


lemma replace_first:
  "\<forall>i<length pre. \<not> prefix pat (drop i (pre @ pat @ post)) \<Longrightarrow>
     replace pat rep (pre @ pat @ post) = pre @ rep @ post"
proof (induction pre)
  case Nil
  show ?case by (simp add: replace_prefix)
next
  case (Cons p pre)
  from Cons.prems have "\<not> prefix pat ((p # pre) @ pat @ post)"
    by fastforce
  moreover have "\<forall>i<length pre. \<not> prefix pat (drop i (pre @ pat @ post))"
  proof (intro allI impI)
    fix i assume "i < length pre"
    then have "Suc i < length (p # pre)" by simp
    with Cons.prems have "\<not> prefix pat (drop (Suc i) ((p # pre) @ pat @ post))" by blast
    then show "\<not> prefix pat (drop i (pre @ pat @ post))" by simp
  qed
  ultimately show ?case using Cons.IH by simp
qed

lemma build_id_step:
  assumes "authenticateUser w req = Inr ()"
    and "app_findUnique w (req_appId req) = Inr (Some app)"
    and "getContainerStatus w (''dockerizalo-'' @ req_appId req) = Inr status"
    and "status \<noteq> ''running''"
    and "getAppDirectory w app = Inr (Some directory)" and "directory \<noteq> []"
    and "getComposeConfiguration w directory = Inr (Some compose)"
    and "getComposeImage w compose = Inr (Some image')" and "image' \<noteq> []"
  shows "if replace ''dockerizalo-'' [] image' = []
         then startApp w req =
           (createBuild w req,
            [AuthenticateUser req, App_findUnique (req_appId req),
             GetContainerStatus (''dockerizalo-'' @ req_appId req),
             GetAppDirectory app, GetComposeConfiguration directory, GetComposeImage compose,
             CreateBuild req])
         else take 7 (snd (startApp w req)) =
            [AuthenticateUser req, App_findUnique (req_appId req),
             GetContainerStatus (''dockerizalo-'' @ req_appId req),
             GetAppDirectory app, GetComposeConfiguration directory, GetComposeImage compose,
             Build_findUnique (replace ''dockerizalo-'' [] image')]"
  using assms unfolding startApp_def
  by (simp add: await_Inr delegate_eq Let_def truthy_def snd_await)

lemma start_status_queries:
  assumes "authenticateUser w req = Inr ()"
    and "app_findUnique w (req_appId req) = Inr (Some app)"
  shows "status_queries (snd (startApp w req)) = [''dockerizalo-'' @ req_appId req]"
  using assms unfolding startApp_def case_truthy Let_def
  by (simp add: await_Inr snd_await snd_emit snd_try_await snd_finished delegate_eq
        status_queries_Cons status_queries_none start_failed_no_status
      split: sum.split option.split prod.split)

section \<open>Start, stop and the log stream\<close>




text \<open>
  C4. For an existing app (authentication passed): Start, when the status of the app's
  container is \<^verbatim>\<open>running\<close>, answers 400 and has called nothing after the status query;
  Stop, when the status is neither \<^verbatim>\<open>running\<close> nor \<^verbatim>\<open>restarting\<close>, answers 400 and has
  called nothing after the status query either.
\<close>

theorem start_stop_conflict:
  "(authenticateUser w req = Inr () \<and> app_findUnique w (req_appId req) = Inr (Some app) \<and>
    getContainerStatus w (''dockerizalo-'' @ req_appId req) = Inr ''running'' \<longrightarrow>
      startApp w req =
        (Inr (), [AuthenticateUser req, App_findUnique (req_appId req),
                  GetContainerStatus (''dockerizalo-'' @ req_appId req),
                  Res_status_json 400 (Message ''The app is already running'')])) \<and>
   (authenticateUser w req = Inr () \<and> app_findUnique w (req_appId req) = Inr (Some app) \<and>
    getContainerStatus w (''dockerizalo-'' @ req_appId req) = Inr status \<and>
    status \<noteq> ''running'' \<and> status \<noteq> ''restarting'' \<longrightarrow>
      stopApp w req =
        (Inr (), [AuthenticateUser req, App_findUnique (req_appId req),
                  GetContainerStatus (''dockerizalo-'' @ req_appId req),
                  Res_status_json 400 (Message ''The app is not running'')]))"
  by (simp add: startApp_def stopApp_def await_Inr emit_def finished_def)

theorem start_stop_conflict_example:
  "startApp (sample_world\<lparr>getContainerStatus := (\<lambda>_. Inr ''running'')\<rparr>) sample_request =
     (Inr (), [AuthenticateUser sample_request, App_findUnique ''a1'',
               GetContainerStatus ''dockerizalo-a1'',
               Res_status_json 400 (Message ''The app is already running'')]) \<and>
   stopApp sample_world sample_request =
     (Inr (), [AuthenticateUser sample_request, App_findUnique ''a1'',
               GetContainerStatus ''dockerizalo-a1'',
               Res_status_json 400 (Message ''The app is not running'')])"
  using start_stop_conflict
      [where w = "sample_world\<lparr>getContainerStatus := (\<lambda>_. Inr ''running'')\<rparr>"
         and req = sample_request and app = sample_app]
    start_stop_conflict
      [where w = sample_world and req = sample_request and app = sample_app
         and status = "''exited''"]
  by (simp add: sample_world_def sample_request_def)

text \<open>
  C5. For an existing app whose container is \<^verbatim>\<open>restarting\<close>, when the directory is
  obtained and the stack stops without an error, Stop answers 200: it has called
  \<^verbatim>\<open>getOrCreateAppDirectory\<close>, then \<^verbatim>\<open>stopComposeStack\<close> once, on that directory, then
  \<^verbatim>\<open>sendAppEvent\<close> once, for that app.
\<close>

theorem stop_restarting_succeeds:
  assumes "authenticateUser w req = Inr ()"
    and "app_findUnique w (req_appId req) = Inr (Some app)"
    and "getContainerStatus w (''dockerizalo-'' @ req_appId req) = Inr ''restarting''"
    and "getOrCreateAppDirectory w app = Inr directory"
    and "stopComposeStack w directory = Inr ()"
    and "sendAppEvent w (app_id app) = Inr ()"
  shows "stopApp w req =
           (Inr (), [AuthenticateUser req, App_findUnique (req_appId req),
                     GetContainerStatus (''dockerizalo-'' @ req_appId req),
                     GetOrCreateAppDirectory app, StopComposeStack directory,
                     SendAppEvent (app_id app),
                     Res_status_json 200 (Message ''App has stopped'')]) \<and>
         stop_calls (snd (stopApp w req)) = [directory] \<and>
         event_calls (snd (stopApp w req)) = [app_id app]"
  using assms
  by (simp add: stopApp_def await_Inr emit_def finished_def stop_calls_def event_calls_def)

theorem stop_restarting_succeeds_example:
  "stopApp (sample_world\<lparr>getContainerStatus := (\<lambda>_. Inr ''restarting'')\<rparr>) sample_request =
     (Inr (), [AuthenticateUser sample_request, App_findUnique ''a1'',
               GetContainerStatus ''dockerizalo-a1'',
               GetOrCreateAppDirectory sample_app, StopComposeStack ''/apps/a1'',
               SendAppEvent ''a1'',
               Res_status_json 200 (Message ''App has stopped'')]) \<and>
   stop_calls (snd (stopApp (sample_world\<lparr>getContainerStatus := (\<lambda>_. Inr ''restarting'')\<rparr>)
     sample_request)) = [''/apps/a1''] \<and>
   event_calls (snd (stopApp (sample_world\<lparr>getContainerStatus := (\<lambda>_. Inr ''restarting'')\<rparr>)
     sample_request)) = [''a1'']"
proof -
  let ?w = "sample_world\<lparr>getContainerStatus := (\<lambda>_. Inr ''restarting'')\<rparr>"
  have h: "authenticateUser ?w sample_request = Inr ()"
    "app_findUnique ?w (req_appId sample_request) = Inr (Some sample_app)"
    "getContainerStatus ?w (''dockerizalo-'' @ req_appId sample_request) = Inr ''restarting''"
    "getOrCreateAppDirectory ?w sample_app = Inr ''/apps/a1''"
    "stopComposeStack ?w ''/apps/a1'' = Inr ()"
    "sendAppEvent ?w (app_id sample_app) = Inr ()"
    by (simp_all add: sample_world_def sample_request_def)
  from stop_restarting_succeeds [OF h] show ?thesis
    by (simp add: sample_request_def sample_app_def stop_calls_def event_calls_def)
qed

text \<open>
  C8. All reuse checks have passed and the configuration is saved; then
  \<^verbatim>\<open>startComposeStack\<close> throws. If the thrown value is an object with a property
  \<^verbatim>\<open>err\<close>, Start answers 500 with that text and its promise resolves. If it is an object
  without \<^verbatim>\<open>err\<close>, the promise of Start rejects with that same value and nothing is
  answered. (A thrown value that is not an object makes \<^verbatim>\<open>"err" in e\<close> raise a
  \<^verbatim>\<open>TypeError\<close>, and Start rejects with that.) In each case \<^verbatim>\<open>startComposeStack\<close> was
  called once, it is the last call to a service, and no event is sent.
\<close>

theorem start_runtime_error_surfaced:
  assumes "authenticateUser w req = Inr ()"
    and "app_findUnique w (req_appId req) = Inr (Some app)"
    and "getContainerStatus w (''dockerizalo-'' @ req_appId req) = Inr status"
    and "status \<noteq> ''running''"
    and "getAppDirectory w app = Inr (Some directory)" and "directory \<noteq> []"
    and "getComposeConfiguration w directory = Inr (Some compose)"
    and "getComposeImage w compose = Inr (Some image')" and "image' \<noteq> []"
    and "replace ''dockerizalo-'' [] image' \<noteq> []"
    and "build_findUnique w (replace ''dockerizalo-'' [] image') = Inr (Some build)"
    and "isImageAvailable w image' = Inr True"
    and "transaction w (app_id app) = Inr (ports, volumes, variables, networks, labels)"
    and "saveComposeConfiguration w
           (createComposeConfiguration (dump w) build ports volumes variables networks labels)
           directory = Inr ()"
    and "startComposeStack w directory = Inl e"
  shows "startApp w req =
     (case e of
        Thrown_Object (Some err) d \<Rightarrow> Inr ()
      | Thrown_Object None d \<Rightarrow> Inl e
      | Thrown_Primitive p \<Rightarrow> Inl type_error,
      [AuthenticateUser req, App_findUnique (req_appId req),
       GetContainerStatus (''dockerizalo-'' @ req_appId req),
       GetAppDirectory app, GetComposeConfiguration directory, GetComposeImage compose,
       Build_findUnique (replace ''dockerizalo-'' [] image'), IsImageAvailable image',
       Transaction (app_id app),
       SaveComposeConfiguration
         (createComposeConfiguration (dump w) build ports volumes variables networks labels)
         directory,
       StartComposeStack directory] @
      (case e of
         Thrown_Object (Some err) d \<Rightarrow>
           [Res_status_json 500 (Message (''Error when running project: '' @ err))]
       | _ \<Rightarrow> [])) \<and>
     start_calls (snd (startApp w req)) = [directory] \<and>
     event_calls (snd (startApp w req)) = []"
proof -
  have run: "startApp w req =
     (case e of
        Thrown_Object (Some err) d \<Rightarrow> Inr ()
      | Thrown_Object None d \<Rightarrow> Inl e
      | Thrown_Primitive p \<Rightarrow> Inl type_error,
      [AuthenticateUser req, App_findUnique (req_appId req),
       GetContainerStatus (''dockerizalo-'' @ req_appId req),
       GetAppDirectory app, GetComposeConfiguration directory, GetComposeImage compose,
       Build_findUnique (replace ''dockerizalo-'' [] image'), IsImageAvailable image',
       Transaction (app_id app),
       SaveComposeConfiguration
         (createComposeConfiguration (dump w) build ports volumes variables networks labels)
         directory,
       StartComposeStack directory] @
      (case e of
         Thrown_Object (Some err) d \<Rightarrow>
           [Res_status_json 500 (Message (''Error when running project: '' @ err))]
       | _ \<Rightarrow> []))"
    using assms
    by (simp add: startApp_def await_Inr try_await_def start_failed_def err_in_def emit_def
        finished_def truthy_def Let_def split: thrown.splits option.splits)
  have "start_calls (snd (startApp w req)) = [directory] \<and> event_calls (snd (startApp w req)) = []"
  proof (cases e)
    case (Thrown_Object p d)
    then show ?thesis
      by (cases p) (simp_all add: run start_calls_def event_calls_def)
  next
    case (Thrown_Primitive p)
    then show ?thesis
      by (simp add: run start_calls_def event_calls_def)
  qed
  with run show ?thesis
    by (intro conjI) simp_all
qed

text \<open>
  The compose command fails with an \<^verbatim>\<open>err\<close> text: the answer is 500 with that text. The
  process cannot be spawned (an error without \<^verbatim>\<open>err\<close>): Start rejects with it.
\<close>

theorem start_runtime_error_surfaced_example:
  "startApp (sample_world\<lparr>startComposeStack := (\<lambda>_. Inl (Thrown_Object (Some ''no such image'') ''compose''))\<rparr>)
     sample_request =
     (Inr (),
      [AuthenticateUser sample_request, App_findUnique ''a1'', GetContainerStatus ''dockerizalo-a1'',
       GetAppDirectory sample_app, GetComposeConfiguration ''/apps/a1'', GetComposeImage ''compose.yml'',
       Build_findUnique ''b1'', IsImageAvailable ''dockerizalo-b1'', Transaction ''a1'',
       SaveComposeConfiguration ''yaml'' ''/apps/a1'', StartComposeStack ''/apps/a1'',
       Res_status_json 500 (Message ''Error when running project: no such image'')]) \<and>
   startApp (sample_world\<lparr>startComposeStack := (\<lambda>_. Inl (Thrown_Object None ''ENOENT''))\<rparr>)
     sample_request =
     (Inl (Thrown_Object None ''ENOENT''),
      [AuthenticateUser sample_request, App_findUnique ''a1'', GetContainerStatus ''dockerizalo-a1'',
       GetAppDirectory sample_app, GetComposeConfiguration ''/apps/a1'', GetComposeImage ''compose.yml'',
       Build_findUnique ''b1'', IsImageAvailable ''dockerizalo-b1'', Transaction ''a1'',
       SaveComposeConfiguration ''yaml'' ''/apps/a1'', StartComposeStack ''/apps/a1''])"
proof -
  let ?ports = "[\<lparr>port_external = 8080, port_internal = 80\<rparr>]"
  have h: "authenticateUser (sample_world\<lparr>startComposeStack := (\<lambda>_. Inl e)\<rparr>) sample_request = Inr ()"
    "app_findUnique (sample_world\<lparr>startComposeStack := (\<lambda>_. Inl e)\<rparr>) (req_appId sample_request) =
       Inr (Some sample_app)"
    "getContainerStatus (sample_world\<lparr>startComposeStack := (\<lambda>_. Inl e)\<rparr>)
       (''dockerizalo-'' @ req_appId sample_request) = Inr ''exited''"
    "''exited'' \<noteq> ''running''"
    "getAppDirectory (sample_world\<lparr>startComposeStack := (\<lambda>_. Inl e)\<rparr>) sample_app = Inr (Some ''/apps/a1'')"
    "''/apps/a1'' \<noteq> []"
    "getComposeConfiguration (sample_world\<lparr>startComposeStack := (\<lambda>_. Inl e)\<rparr>) ''/apps/a1'' =
       Inr (Some ''compose.yml'')"
    "getComposeImage (sample_world\<lparr>startComposeStack := (\<lambda>_. Inl e)\<rparr>) ''compose.yml'' =
       Inr (Some ''dockerizalo-b1'')"
    "''dockerizalo-b1'' \<noteq> []"
    "replace ''dockerizalo-'' [] ''dockerizalo-b1'' \<noteq> []"
    "build_findUnique (sample_world\<lparr>startComposeStack := (\<lambda>_. Inl e)\<rparr>)
       (replace ''dockerizalo-'' [] ''dockerizalo-b1'') = Inr (Some sample_build)"
    "isImageAvailable (sample_world\<lparr>startComposeStack := (\<lambda>_. Inl e)\<rparr>) ''dockerizalo-b1'' = Inr True"
    "transaction (sample_world\<lparr>startComposeStack := (\<lambda>_. Inl e)\<rparr>) (app_id sample_app) =
       Inr (?ports, [], [], [], [])"
    "saveComposeConfiguration (sample_world\<lparr>startComposeStack := (\<lambda>_. Inl e)\<rparr>)
       (createComposeConfiguration (dump (sample_world\<lparr>startComposeStack := (\<lambda>_. Inl e)\<rparr>))
          sample_build ?ports [] [] [] []) ''/apps/a1'' = Inr ()"
    "startComposeStack (sample_world\<lparr>startComposeStack := (\<lambda>_. Inl e)\<rparr>) ''/apps/a1'' = Inl e"
    for e
    by (simp_all add: sample_world_def sample_request_def)
  have yaml: "createComposeConfiguration (dump sample_world) sample_build ?ports [] [] [] [] = ''yaml''"
    by (simp add: createComposeConfiguration_def sample_world_def)
  from start_runtime_error_surfaced [OF h, of "Thrown_Object (Some ''no such image'') ''compose''"]
    start_runtime_error_surfaced [OF h, of "Thrown_Object None ''ENOENT''"]
  show ?thesis
    by (simp add: yaml sample_request_def sample_app_def)
qed

text \<open>
  C9. For an existing app whose container is neither \<^verbatim>\<open>running\<close> nor \<^verbatim>\<open>restarting\<close>,
  the log stream answers 400 after the status query and does nothing else: no header is
  set, no close handler is registered, and the retry loop is not started.
\<close>

theorem logs_conflict_before_streaming:
  assumes "authenticateUser w req = Inr ()"
    and "app_findUnique w (req_appId req) = Inr (Some app)"
    and "getContainerStatus w (''dockerizalo-'' @ req_appId req) = Inr status"
    and "status \<noteq> ''running''" and "status \<noteq> ''restarting''"
  shows "listenAppLogs w req =
           (Inr (), [AuthenticateUser req, App_findUnique (req_appId req),
                     GetContainerStatus (''dockerizalo-'' @ req_appId req),
                     Res_status_json 400 (Message ''The app is not running'')])"
  using assms
  by (simp add: listenAppLogs_def await_Inr emit_def finished_def)

theorem logs_conflict_before_streaming_example:
  "listenAppLogs sample_world sample_request =
     (Inr (), [AuthenticateUser sample_request, App_findUnique ''a1'',
               GetContainerStatus ''dockerizalo-a1'',
               Res_status_json 400 (Message ''The app is not running'')])"
proof -
  have h: "authenticateUser sample_world sample_request = Inr ()"
    "app_findUnique sample_world (req_appId sample_request) = Inr (Some sample_app)"
    "getContainerStatus sample_world (''dockerizalo-'' @ req_appId sample_request) = Inr ''exited''"
    "''exited'' \<noteq> ''running''" "''exited'' \<noteq> ''restarting''"
    by (simp_all add: sample_world_def sample_request_def)
  from logs_conflict_before_streaming [OF h] show ?thesis
    by (simp add: sample_request_def)
qed

text \<open>
  C10. The build id is the image tag with the first \<^verbatim>\<open>dockerizalo-\<close> taken out: a tag
  without that substring is the build id as it is, and of a tag with it only the first
  occurrence goes. In Start, once the image tag is read from the configuration, an empty
  build id sends the request to \<^verbatim>\<open>createBuild\<close> right after \<^verbatim>\<open>getComposeImage\<close>; any
  other build id is the one looked up in the store next.
\<close>

theorem build_id_from_image:
  "(\<not> sublist ''dockerizalo-'' tag \<longrightarrow> replace ''dockerizalo-'' [] tag = tag) \<and>
   ((\<forall>i<length pre. \<not> prefix ''dockerizalo-'' (drop i (pre @ ''dockerizalo-'' @ post))) \<longrightarrow>
      replace ''dockerizalo-'' [] (pre @ ''dockerizalo-'' @ post) = pre @ post) \<and>
   (authenticateUser w req = Inr () \<and>
    app_findUnique w (req_appId req) = Inr (Some app) \<and>
    getContainerStatus w (''dockerizalo-'' @ req_appId req) = Inr status \<and>
    status \<noteq> ''running'' \<and>
    getAppDirectory w app = Inr (Some directory) \<and> directory \<noteq> [] \<and>
    getComposeConfiguration w directory = Inr (Some compose) \<and>
    getComposeImage w compose = Inr (Some image') \<and> image' \<noteq> [] \<longrightarrow>
      (if replace ''dockerizalo-'' [] image' = []
       then startApp w req =
           (createBuild w req,
            [AuthenticateUser req, App_findUnique (req_appId req),
             GetContainerStatus (''dockerizalo-'' @ req_appId req),
             GetAppDirectory app, GetComposeConfiguration directory, GetComposeImage compose,
             CreateBuild req])
       else take 7 (snd (startApp w req)) =
            [AuthenticateUser req, App_findUnique (req_appId req),
             GetContainerStatus (''dockerizalo-'' @ req_appId req),
             GetAppDirectory app, GetComposeConfiguration directory, GetComposeImage compose,
             Build_findUnique (replace ''dockerizalo-'' [] image')]))"
proof (intro conjI impI)
  assume "\<not> sublist ''dockerizalo-'' tag"
  then show "replace ''dockerizalo-'' [] tag = tag"
    by (intro replace_absent) simp_all
next
  assume "\<forall>i<length pre. \<not> prefix ''dockerizalo-'' (drop i (pre @ ''dockerizalo-'' @ post))"
  then show "replace ''dockerizalo-'' [] (pre @ ''dockerizalo-'' @ post) = pre @ post"
    using replace_first [of pre "''dockerizalo-''" post "[]"] by simp
next
  assume h: "authenticateUser w req = Inr () \<and>
    app_findUnique w (req_appId req) = Inr (Some app) \<and>
    getContainerStatus w (''dockerizalo-'' @ req_appId req) = Inr status \<and>
    status \<noteq> ''running'' \<and>
    getAppDirectory w app = Inr (Some directory) \<and> directory \<noteq> [] \<and>
    getComposeConfiguration w directory = Inr (Some compose) \<and>
    getComposeImage w compose = Inr (Some image') \<and> image' \<noteq> []"
  show "if replace ''dockerizalo-'' [] image' = []
       then startApp w req =
           (createBuild w req,
            [AuthenticateUser req, App_findUnique (req_appId req),
             GetContainerStatus (''dockerizalo-'' @ req_appId req),
             GetAppDirectory app, GetComposeConfiguration directory, GetComposeImage compose,
             CreateBuild req])
       else take 7 (snd (startApp w req)) =
            [AuthenticateUser req, App_findUnique (req_appId req),
             GetContainerStatus (''dockerizalo-'' @ req_appId req),
             GetAppDirectory app, GetComposeConfiguration directory, GetComposeImage compose,
             Build_findUnique (replace ''dockerizalo-'' [] image')]"
    by (rule build_id_step [where status = status]) (use h in simp_all)
qed

text \<open>
  The tag \<^verbatim>\<open>b1\<close> has no prefix and is looked up as it is; of
  \<^verbatim>\<open>x-dockerizalo-dockerizalo-b1\<close> the first occurrence goes; the tag \<^verbatim>\<open>dockerizalo-\<close>
  leaves an empty build id and the request goes to \<^verbatim>\<open>createBuild\<close>.
\<close>

theorem build_id_from_image_example:
  "replace ''dockerizalo-'' [] ''b1'' = ''b1'' \<and>
   replace ''dockerizalo-'' [] ''x-dockerizalo-dockerizalo-b1'' = ''x-dockerizalo-b1'' \<and>
   startApp (sample_world\<lparr>getComposeImage := (\<lambda>_. Inr (Some ''dockerizalo-''))\<rparr>) sample_request =
     (Inr (),
      [AuthenticateUser sample_request, App_findUnique ''a1'', GetContainerStatus ''dockerizalo-a1'',
       GetAppDirectory sample_app, GetComposeConfiguration ''/apps/a1'', GetComposeImage ''compose.yml'',
       CreateBuild sample_request]) \<and>
   take 7 (snd (startApp (sample_world\<lparr>getComposeImage := (\<lambda>_. Inr (Some ''b1''))\<rparr>) sample_request)) =
      [AuthenticateUser sample_request, App_findUnique ''a1'', GetContainerStatus ''dockerizalo-a1'',
       GetAppDirectory sample_app, GetComposeConfiguration ''/apps/a1'', GetComposeImage ''compose.yml'',
       Build_findUnique ''b1'']"
proof -
  have absent: "\<not> sublist ''dockerizalo-'' ''b1''"
    by (simp add: sublist_Cons_right)
  have 1: "replace ''dockerizalo-'' [] ''b1'' = ''b1''"
    using build_id_from_image [THEN conjunct1, THEN mp, OF absent] .
  have first: "\<forall>i<length ''x-''. \<not> prefix ''dockerizalo-'' (drop i (''x-'' @ ''dockerizalo-'' @ ''dockerizalo-b1''))"
    by (simp add: less_Suc_eq)
  have 2: "replace ''dockerizalo-'' [] ''x-dockerizalo-dockerizalo-b1'' = ''x-dockerizalo-b1''"
    using build_id_from_image [THEN conjunct2, THEN conjunct1, THEN mp, OF first] by simp
  have h: "authenticateUser (sample_world\<lparr>getComposeImage := (\<lambda>_. Inr (Some tag))\<rparr>) sample_request = Inr () \<and>
    app_findUnique (sample_world\<lparr>getComposeImage := (\<lambda>_. Inr (Some tag))\<rparr>) (req_appId sample_request) =
      Inr (Some sample_app) \<and>
    getContainerStatus (sample_world\<lparr>getComposeImage := (\<lambda>_. Inr (Some tag))\<rparr>)
      (''dockerizalo-'' @ req_appId sample_request) = Inr ''exited'' \<and>
    ''exited'' \<noteq> ''running'' \<and>
    getAppDirectory (sample_world\<lparr>getComposeImage := (\<lambda>_. Inr (Some tag))\<rparr>) sample_app =
      Inr (Some ''/apps/a1'') \<and> ''/apps/a1'' \<noteq> [] \<and>
    getComposeConfiguration (sample_world\<lparr>getComposeImage := (\<lambda>_. Inr (Some tag))\<rparr>) ''/apps/a1'' =
      Inr (Some ''compose.yml'') \<and>
    getComposeImage (sample_world\<lparr>getComposeImage := (\<lambda>_. Inr (Some tag))\<rparr>) ''compose.yml'' =
      Inr (Some tag) \<and> tag \<noteq> []"
    if "tag \<noteq> []" for tag
    using that by (simp add: sample_world_def sample_request_def)
  have 3: "startApp (sample_world\<lparr>getComposeImage := (\<lambda>_. Inr (Some ''dockerizalo-''))\<rparr>) sample_request =
     (Inr (),
      [AuthenticateUser sample_request, App_findUnique ''a1'', GetContainerStatus ''dockerizalo-a1'',
       GetAppDirectory sample_app, GetComposeConfiguration ''/apps/a1'', GetComposeImage ''compose.yml'',
       CreateBuild sample_request])"
  proof -
    have empty: "replace ''dockerizalo-'' [] ''dockerizalo-'' = []"
      by simp
    have build: "createBuild (sample_world\<lparr>getComposeImage := (\<lambda>_. Inr (Some ''dockerizalo-''))\<rparr>)
        sample_request = Inr ()"
      by (simp add: sample_world_def)
    have "''dockerizalo-'' \<noteq> []"
      by simp
    from build_id_from_image [THEN conjunct2, THEN conjunct2, THEN mp, OF h [OF this]]
    show ?thesis
      unfolding empty build by (simp add: sample_request_def)
  qed
  have 4: "take 7 (snd (startApp (sample_world\<lparr>getComposeImage := (\<lambda>_. Inr (Some ''b1''))\<rparr>) sample_request)) =
      [AuthenticateUser sample_request, App_findUnique ''a1'', GetContainerStatus ''dockerizalo-a1'',
       GetAppDirectory sample_app, GetComposeConfiguration ''/apps/a1'', GetComposeImage ''compose.yml'',
       Build_findUnique ''b1'']"
  proof -
    have "''b1'' \<noteq> []"
      by simp
    from build_id_from_image [THEN conjunct2, THEN conjunct2, THEN mp, OF h [OF this]]
    show ?thesis
      unfolding 1 by (simp add: sample_request_def)
  qed
  from 1 2 3 4 show ?thesis by (intro conjI)
qed

section \<open>Status queries\<close>

lemma status_queries_Nil: "status_queries [] = []"
  by (simp add: status_queries_def)

lemma stop_status_queries:
  assumes "authenticateUser w req = Inr ()"
    and "app_findUnique w (req_appId req) = Inr (Some app)"
  shows "status_queries (snd (stopApp w req)) = [''dockerizalo-'' @ req_appId req]"
  using assms unfolding stopApp_def
  by (simp add: await_Inr snd_await snd_emit snd_finished status_queries_Cons status_queries_Nil
      split: sum.split)

lemma logs_status_queries:
  assumes "authenticateUser w req = Inr ()"
    and "app_findUnique w (req_appId req) = Inr (Some app)"
  shows "status_queries (snd (listenAppLogs w req)) = [''dockerizalo-'' @ req_appId req]"
  using assms unfolding listenAppLogs_def
  by (simp add: await_Inr snd_await snd_emit snd_finished status_queries_Cons status_queries_Nil
      split: sum.split)

lemma listen_status_queries:
  assumes "authenticateUser w req = Inr ()"
    and "app_findUnique w (req_appId req) = Inr (Some app)"
    and "addAppSubscriber w app = Inr sid"
  shows "status_queries (snd (listenApp w req)) = [''dockerizalo-'' @ app_id app]"
  using assms unfolding listenApp_def
  by (simp add: await_Inr snd_await snd_emit snd_finished status_queries_Cons status_queries_Nil
      split: sum.split)

lemma list_statuses:
  assumes "authenticateUser w req = Inr ()"
    and "app_findMany w = Inr apps"
    and "getAllContainersStatus w = Inr containers"
  shows "listApps w req =
     (Inr (), [AuthenticateUser req, App_findMany, GetAllContainersStatus,
        Res_status_json 200 (AppStatuses (map (\<lambda>app.
         (app, case containers (''/dockerizalo-'' @ app_id app) of
                 None \<Rightarrow> ''exited''
               | Some c \<Rightarrow> (case container_status c of None \<Rightarrow> ''exited'' | Some s \<Rightarrow> s))) apps))])"
  using assms by (simp add: listApps_def await_Inr emit_def finished_def)

lemma listed_status:
  assumes "\<forall>name. (case containers (''/'' @ name) of None \<Rightarrow> None | Some c \<Rightarrow> container_status c) =
      runtime name"
  shows "(case containers (''/dockerizalo-'' @ i) of
            None \<Rightarrow> ''exited''
          | Some c \<Rightarrow> (case container_status c of None \<Rightarrow> ''exited'' | Some s \<Rightarrow> s)) =
         (case runtime (''dockerizalo-'' @ i) of None \<Rightarrow> ''exited'' | Some s \<Rightarrow> s)"
proof -
  have "runtime (''dockerizalo-'' @ i) =
      (case containers (''/'' @ ''dockerizalo-'' @ i) of None \<Rightarrow> None | Some c \<Rightarrow> container_status c)"
    by (rule assms [rule_format, symmetric])
  then show ?thesis
    by (simp split: option.split)
qed

text \<open>
  C7. Every status query goes to the Runtime Adapter under the container name
  \<^verbatim>\<open>dockerizalo-\<close> followed by the app's id. For an existing app (the record found under
  the id of the request), Start, Stop and the log stream make exactly one query, for the
  container of that name, and so does the status stream. The listing takes one snapshot
  of all containers and looks each app up under \<^verbatim>\<open>/dockerizalo-\<close> followed by the app's
  id: the snapshot being keyed as the container runtime lists names, the name of the
  container after a slash, the status shown for an app is the status of the container
  \<^verbatim>\<open>dockerizalo-\<close> followed by the app's id, the container the single queries ask for; an
  app whose container is not in the snapshot is shown as exited.
\<close>

theorem status_query_names:
  "(authenticateUser w req = Inr () \<and> app_findUnique w (req_appId req) = Inr (Some app) \<and>
    app_id app = req_appId req \<longrightarrow>
      status_queries (snd (startApp w req)) = [''dockerizalo-'' @ app_id app] \<and>
      status_queries (snd (stopApp w req)) = [''dockerizalo-'' @ app_id app] \<and>
      status_queries (snd (listenAppLogs w req)) = [''dockerizalo-'' @ app_id app]) \<and>
   (authenticateUser w req = Inr () \<and> app_findUnique w (req_appId req) = Inr (Some app) \<and>
    addAppSubscriber w app = Inr sid \<longrightarrow>
      status_queries (snd (listenApp w req)) = [''dockerizalo-'' @ app_id app]) \<and>
   (authenticateUser w req = Inr () \<and> app_findMany w = Inr apps \<and>
    getAllContainersStatus w = Inr containers \<and>
    (\<forall>name. (case containers (''/'' @ name) of None \<Rightarrow> None | Some c \<Rightarrow> container_status c) =
       runtime name) \<longrightarrow>
      (\<exists>shown.
         listApps w req =
           (Inr (), [AuthenticateUser req, App_findMany, GetAllContainersStatus,
                     Res_status_json 200 (AppStatuses shown)]) \<and>
         shown = map (\<lambda>a.
           (a, case runtime (''dockerizalo-'' @ app_id a) of None \<Rightarrow> ''exited'' | Some s \<Rightarrow> s)) apps \<and>
         (\<forall>a \<in> set apps. containers (''/'' @ ''dockerizalo-'' @ app_id a) = None \<longrightarrow>
            (a, ''exited'') \<in> set shown)))"
proof (intro conjI impI)
  assume h: "authenticateUser w req = Inr () \<and> app_findMany w = Inr apps \<and>
    getAllContainersStatus w = Inr containers \<and>
    (\<forall>name. (case containers (''/'' @ name) of None \<Rightarrow> None | Some c \<Rightarrow> container_status c) =
       runtime name)"
  then have listed: "\<forall>name. (case containers (''/'' @ name) of None \<Rightarrow> None | Some c \<Rightarrow> container_status c) =
       runtime name"
    by (elim conjE)
  let ?shown = "map (\<lambda>a.
           (a, case runtime (''dockerizalo-'' @ app_id a) of None \<Rightarrow> ''exited'' | Some s \<Rightarrow> s)) apps"
  have "listApps w req =
           (Inr (), [AuthenticateUser req, App_findMany, GetAllContainersStatus,
        Res_status_json 200 (AppStatuses (map (\<lambda>app.
         (app, case containers (''/dockerizalo-'' @ app_id app) of
                 None \<Rightarrow> ''exited''
               | Some c \<Rightarrow> (case container_status c of None \<Rightarrow> ''exited'' | Some s \<Rightarrow> s))) apps))])"
    by (rule list_statuses) (use h in simp_all)
  then have run: "listApps w req =
           (Inr (), [AuthenticateUser req, App_findMany, GetAllContainersStatus,
                     Res_status_json 200 (AppStatuses ?shown)])"
    by (simp only: listed_status [OF listed])
  have absent: "\<forall>a \<in> set apps. containers (''/'' @ ''dockerizalo-'' @ app_id a) = None \<longrightarrow>
            (a, ''exited'') \<in> set ?shown"
  proof (intro ballI impI)
    fix a
    assume a: "a \<in> set apps" and none: "containers (''/'' @ ''dockerizalo-'' @ app_id a) = None"
    have "runtime (''dockerizalo-'' @ app_id a) =
        (case containers (''/'' @ ''dockerizalo-'' @ app_id a) of None \<Rightarrow> None
         | Some c \<Rightarrow> container_status c)"
      by (rule listed [rule_format, symmetric])
    with none have "runtime (''dockerizalo-'' @ app_id a) = None"
      by simp
    with a show "(a, ''exited'') \<in> set ?shown"
      by (force simp: image_iff)
  qed
  from run absent show "\<exists>shown.
         listApps w req =
           (Inr (), [AuthenticateUser req, App_findMany, GetAllContainersStatus,
                     Res_status_json 200 (AppStatuses shown)]) \<and>
         shown = map (\<lambda>a.
           (a, case runtime (''dockerizalo-'' @ app_id a) of None \<Rightarrow> ''exited'' | Some s \<Rightarrow> s)) apps \<and>
         (\<forall>a \<in> set apps. containers (''/'' @ ''dockerizalo-'' @ app_id a) = None \<longrightarrow>
            (a, ''exited'') \<in> set shown)"
    by (intro exI [of _ ?shown] conjI refl)
qed (simp_all add: start_status_queries stop_status_queries logs_status_queries listen_status_queries)

text \<open>
  The runtime has the container \<^verbatim>\<open>dockerizalo-a1\<close>, restarting: the single queries ask
  for \<^verbatim>\<open>dockerizalo-a1\<close> and the listing shows the app as restarting. With no container
  in the runtime the listing shows it as exited.
\<close>

theorem status_query_names_example:
  "status_queries (snd (startApp restarting_world sample_request)) = [''dockerizalo-a1''] \<and>
   status_queries (snd (stopApp restarting_world sample_request)) = [''dockerizalo-a1''] \<and>
   status_queries (snd (listenAppLogs restarting_world sample_request)) = [''dockerizalo-a1''] \<and>
   status_queries (snd (listenApp restarting_world sample_request)) = [''dockerizalo-a1''] \<and>
   restarting_runtime ''dockerizalo-a1'' = Some ''restarting'' \<and>
   listApps restarting_world sample_request =
     (Inr (), [AuthenticateUser sample_request, App_findMany, GetAllContainersStatus,
               Res_status_json 200 (AppStatuses [(sample_app, ''restarting'')])]) \<and>
   listApps (sample_world\<lparr>getAllContainersStatus := Inr (\<lambda>_. None)\<rparr>) sample_request =
     (Inr (), [AuthenticateUser sample_request, App_findMany, GetAllContainersStatus,
               Res_status_json 200 (AppStatuses [(sample_app, ''exited'')])])"
proof -
  note th = status_query_names [where req = sample_request and app = sample_app]
  let ?slash = "\<lambda>key. if key = ''/dockerizalo-a1'' then Some \<lparr>container_status = Some ''restarting''\<rparr>
                else None"
  have found: "authenticateUser restarting_world sample_request = Inr () \<and>
      app_findUnique restarting_world (req_appId sample_request) = Inr (Some sample_app) \<and>
      app_id sample_app = req_appId sample_request"
    by (simp add: restarting_world_def sample_world_def sample_request_def sample_app_def)
  have single: "status_queries (snd (startApp restarting_world sample_request)) =
        [''dockerizalo-'' @ app_id sample_app] \<and>
      status_queries (snd (stopApp restarting_world sample_request)) =
        [''dockerizalo-'' @ app_id sample_app] \<and>
      status_queries (snd (listenAppLogs restarting_world sample_request)) =
        [''dockerizalo-'' @ app_id sample_app]"
    by (rule th [THEN conjunct1, THEN mp, OF found])
  have subscribed: "authenticateUser restarting_world sample_request = Inr () \<and>
      app_findUnique restarting_world (req_appId sample_request) = Inr (Some sample_app) \<and>
      addAppSubscriber restarting_world sample_app = Inr 0"
    by (simp add: restarting_world_def sample_world_def sample_request_def)
  have stream: "status_queries (snd (listenApp restarting_world sample_request)) =
        [''dockerizalo-'' @ app_id sample_app]"
    by (rule th [THEN conjunct2, THEN conjunct1, THEN mp, OF subscribed])
  have listed: "authenticateUser restarting_world sample_request = Inr () \<and>
      app_findMany restarting_world = Inr [sample_app] \<and>
      getAllContainersStatus restarting_world = Inr ?slash \<and>
      (\<forall>name. (case ?slash (''/'' @ name) of None \<Rightarrow> None | Some c \<Rightarrow> container_status c) =
         restarting_runtime name)"
    by (simp add: restarting_world_def sample_world_def restarting_runtime_def)
  have bulk: "listApps restarting_world sample_request =
     (Inr (), [AuthenticateUser sample_request, App_findMany, GetAllContainersStatus,
               Res_status_json 200 (AppStatuses [(sample_app, ''restarting'')])])"
    using th [THEN conjunct2, THEN conjunct2, THEN mp, OF listed]
    by (simp add: sample_app_def restarting_runtime_def)
  have unlisted: "authenticateUser (sample_world\<lparr>getAllContainersStatus := Inr (\<lambda>_. None)\<rparr>) sample_request = Inr () \<and>
      app_findMany (sample_world\<lparr>getAllContainersStatus := Inr (\<lambda>_. None)\<rparr>) = Inr [sample_app] \<and>
      getAllContainersStatus (sample_world\<lparr>getAllContainersStatus := Inr (\<lambda>_. None)\<rparr>) = Inr (\<lambda>_. None) \<and>
      (\<forall>name. (case (\<lambda>_. None) (''/'' @ name) of None \<Rightarrow> None | Some c \<Rightarrow> container_status c) =
         (\<lambda>_. None) name)"
    by (simp add: sample_world_def)
  have absent: "listApps (sample_world\<lparr>getAllContainersStatus := Inr (\<lambda>_. None)\<rparr>) sample_request =
     (Inr (), [AuthenticateUser sample_request, App_findMany, GetAllContainersStatus,
               Res_status_json 200 (AppStatuses [(sample_app, ''exited'')])])"
    using th [THEN conjunct2, THEN conjunct2, THEN mp, OF unlisted]
    by simp
  have runtime: "restarting_runtime ''dockerizalo-a1'' = Some ''restarting''"
    by (simp add: restarting_runtime_def)
  from single stream bulk absent runtime show ?thesis
    by (simp add: sample_app_def)
qed

section \<open>The log-stream supervisor\<close>













text \<open>The whole run of that loop.\<close>

lemma flaky_logs_run:
  "logSupervisor (\<lambda>n. 1000 * 2 ^ n) 10 flaky_logs_world ''dockerizalo-a1'' =
     Some (Inr (),
       [GetContainerLogs ''dockerizalo-a1'', Res_write (LogProgress ''a''), SetTimeout 1000,
        GetContainerLogs ''dockerizalo-a1'', Res_write (LogProgress ''b''), SetTimeout 1000,
        GetContainerLogs ''dockerizalo-a1'', Res_write (LogProgress ''c''),
        Res_write (LogProgress ''d'')])"
proof -
  have logs: "logs_attempt flaky_logs_world ''dockerizalo-a1'' k =
     (if k = 0 then ([GetContainerLogs ''dockerizalo-a1'', Res_write (LogProgress ''a'')],
                     Retry (Thrown_Object None ''socket''))
      else if k = 1 then ([GetContainerLogs ''dockerizalo-a1'', Res_write (LogProgress ''b'')],
                     Retry (Thrown_Object None ''socket''))
      else ([GetContainerLogs ''dockerizalo-a1'', Res_write (LogProgress ''c''),
             Res_write (LogProgress ''d'')], Settled (Inr ())))" for k
    by (simp add: logs_attempt_def flaky_logs_world_def sample_world_def)
  show ?thesis
    unfolding logSupervisor_def
    apply (subst promiseRetry.simps, simp add: logs log_retry_options_def)
    apply (subst promiseRetry.simps, simp add: logs log_retry_options_def)
    apply (subst promiseRetry.simps, simp add: logs log_retry_options_def)
    done
qed

end
